theory Spec2Isabelle
  imports Main
begin

section \<open>Watch options (package sdk)\<close>

text \<open>
  \<^verbatim>\<open>type WatchOp struct { NumWorkers int }\<close>.  The field is a Go \<open>int\<close>; the code only
  compares it with zero and assigns it, no arithmetic is done on it, so it is modelled
  as an \<open>int\<close>.  The methods mutate the struct through a pointer; the model passes the
  struct and returns the updated one.
\<close>

record WatchOp =
  NumWorkers :: int

type_synonym WatchOption = "WatchOp \<Rightarrow> WatchOp"

definition setDefaults :: "WatchOp \<Rightarrow> WatchOp" where
  "setDefaults op = (if NumWorkers op = 0 then op\<lparr>NumWorkers := 1\<rparr> else op)"

definition NewWatchOp :: WatchOp where
  "NewWatchOp = setDefaults \<lparr>NumWorkers = 0\<rparr>"

fun applyOpts :: "WatchOp \<Rightarrow> WatchOption list \<Rightarrow> WatchOp" where
  "applyOpts op [] = op"
| "applyOpts op (opt # opts) = applyOpts (opt op) opts"

definition WithWatchOptions :: "int \<Rightarrow> WatchOption" where
  "WithWatchOptions numWorkers = (\<lambda>op. op\<lparr>NumWorkers := numWorkers\<rparr>)"

section \<open>Chart creation (package chartutil)\<close>

subsection \<open>Go values and the types of the libraries\<close>

text \<open>
  A Go \<open>error\<close> is modelled by its message, the string that \<open>%v\<close> and \<open>%s\<close> print.
  \<open>Errorf ctx err\<close> is \<^verbatim>\<open>fmt.Errorf(ctx + "%v", err)\<close>, the only way this package builds
  an error of its own.
\<close>

datatype error = Error string

fun Error_msg :: "error \<Rightarrow> string" where
  "Error_msg (Error m) = m"

definition Errorf :: "string \<Rightarrow> error \<Rightarrow> error" where
  "Errorf ctx err = Error (ctx @ Error_msg err)"

type_synonym path = string

text \<open>\<^verbatim>\<open>schema.GroupVersionKind\<close> and \<^verbatim>\<open>CreateOptions\<close>; \<open>opts_Chart opts\<close> reads \<^verbatim>\<open>opts.Chart\<close>.\<close>

record GroupVersionKind =
  gvk_Group :: string
  gvk_Version :: string
  gvk_Kind :: string

record CreateOptions =
  opts_GVK :: GroupVersionKind
  opts_Chart :: string
  opts_Repo :: string
  opts_Version :: string
  opts_CRDVersion :: string
  opts_Domain :: string

text \<open>
  Helm's \<^verbatim>\<open>chart.Chart\<close>, with the parts this package and its specification speak of:
  the name and the declared dependencies of its metadata, and its templates (name and
  content).  \<open>Name\<close> is the method \<^verbatim>\<open>Name\<close> of the chart.
\<close>

record chart_Chart =
  Metadata_Name :: string
  Metadata_Dependencies :: "string list"
  Templates :: "(string \<times> string) list"

definition Name :: "chart_Chart \<Rightarrow> string" where
  "Name c = Metadata_Name c"

text \<open>
  Kubebuilder's \<^verbatim>\<open>golang.Options\<close> (the fields \<open>NewResource\<close> sets; every other field keeps
  its zero value) and \<^verbatim>\<open>resource.Resource\<close> (its identity, plural and path).
\<close>

record golang_Options =
  ro_DoAPI :: bool
  ro_Namespaced :: bool
  ro_Domain :: string
  ro_CRDVersion :: string
  ro_Group :: string
  ro_Version :: string
  ro_Kind :: string

record resource_Resource =
  r_Group :: string
  r_Domain :: string
  r_Version :: string
  r_Kind :: string
  r_Plural :: string
  r_Path :: path

definition HelmChartsDir :: string where
  "HelmChartsDir = ''helm-charts''"

definition DefaultGroup :: string where
  "DefaultGroup = ''charts''"

definition DefaultVersion :: string where
  "DefaultVersion = ''v1alpha1''"

subsection \<open>The outside world\<close>

text \<open>
  The package works through library calls: the file system and the temporary directory
  (\<open>os\<close>, \<open>ioutil\<close>, \<open>filepath\<close>), Helm (\<open>loader\<close>, \<open>chartutil\<close>, \<open>repo\<close>, \<open>downloader\<close>),
  \<open>strcase\<close>, \<open>strings\<close> and Kubebuilder.  None of them is code of this repository, so
  they are parameters of the model: a record of functions over a state \<open>'w\<close> (disk and
  network) that the model never inspects.  A call that can fail returns \<open>Inl\<close> of the
  error or \<open>Inr\<close> of the value, or \<open>Some\<close> error when it has no value.  \<open>os.Stat\<close> and
  \<open>loader.Load\<close> only read.  \<open>downloader.Manager.Build\<close> returns, besides its error, the
  text it wrote to the manager's \<open>Out\<close> writer.  The settings and getters built by
  \<^verbatim>\<open>cli.New\<close> and \<^verbatim>\<open>getter.All\<close> are part of the library functions here.
\<close>

record ('w, 'cfg) env =
  ioutil_TempDir :: "string \<Rightarrow> string \<Rightarrow> 'w \<Rightarrow> (error + path) \<times> 'w"
  os_RemoveAll :: "path \<Rightarrow> 'w \<Rightarrow> error option \<times> 'w"
  os_Stat :: "path \<Rightarrow> 'w \<Rightarrow> error option"
  filepath_Join :: "path \<Rightarrow> path \<Rightarrow> path"
  strings_ToLower :: "string \<Rightarrow> string"
  strcase_ToCamel :: "string \<Rightarrow> string"
  loader_Load :: "path \<Rightarrow> 'w \<Rightarrow> error + chart_Chart"
  chartutil_Create :: "string \<Rightarrow> path \<Rightarrow> 'w \<Rightarrow> (error + path) \<times> 'w"
  chartutil_SaveDir :: "chart_Chart \<Rightarrow> path \<Rightarrow> 'w \<Rightarrow> error option \<times> 'w"
  repo_FindChartInRepoURL :: "string \<Rightarrow> string \<Rightarrow> string \<Rightarrow> 'w \<Rightarrow> (error + string) \<times> 'w"
  downloader_DownloadTo :: "string \<Rightarrow> string \<Rightarrow> path \<Rightarrow> 'w \<Rightarrow> (error + path) \<times> 'w"
  downloader_Build :: "path \<Rightarrow> 'w \<Rightarrow> (error option \<times> string) \<times> 'w"
  golang_NewResource :: "golang_Options \<Rightarrow> 'cfg \<Rightarrow> resource_Resource"
  cfg_GetDomain :: "'cfg \<Rightarrow> string"

text \<open>
  The state the model threads through the code: the outside state, the library calls
  made so far in order, the lines written by \<^verbatim>\<open>log.Errorf\<close> and the bytes written to
  standard output.  The list of calls is what the claims about branches speak of.
\<close>

datatype call =
    Call_TempDir string string
  | Call_RemoveAll path
  | Call_Stat path
  | Call_Load path
  | Call_Create string path
  | Call_SaveDir string path
  | Call_FindChartInRepoURL string string string
  | Call_DownloadTo string string path
  | Call_Build path
  | Call_Command string "string list"
  | Call_ReadFile path
  | Call_RenderOperatorYaml string
  | Call_RenderCustomOperatorYaml string string

record 'w world =
  outside :: 'w
  calls :: "call list"
  logged :: "string list"
  stdout :: string

definition called :: "call \<Rightarrow> 'w \<Rightarrow> 'w world \<Rightarrow> 'w world" where
  "called c w s = s\<lparr>outside := w, calls := calls s @ [c]\<rparr>"

definition do_TempDir ::
  "('w, 'cfg) env \<Rightarrow> string \<Rightarrow> string \<Rightarrow> 'w world \<Rightarrow> (error + path) \<times> 'w world" where
  "do_TempDir env dir pattern s =
     (case ioutil_TempDir env dir pattern (outside s) of
        (res, w) \<Rightarrow> (res, called (Call_TempDir dir pattern) w s))"

definition do_RemoveAll ::
  "('w, 'cfg) env \<Rightarrow> path \<Rightarrow> 'w world \<Rightarrow> error option \<times> 'w world" where
  "do_RemoveAll env p s =
     (case os_RemoveAll env p (outside s) of (res, w) \<Rightarrow> (res, called (Call_RemoveAll p) w s))"

definition do_Stat :: "('w, 'cfg) env \<Rightarrow> path \<Rightarrow> 'w world \<Rightarrow> error option \<times> 'w world" where
  "do_Stat env p s = (os_Stat env p (outside s), called (Call_Stat p) (outside s) s)"

definition do_Load ::
  "('w, 'cfg) env \<Rightarrow> path \<Rightarrow> 'w world \<Rightarrow> (error + chart_Chart) \<times> 'w world" where
  "do_Load env p s = (loader_Load env p (outside s), called (Call_Load p) (outside s) s)"

definition do_Create ::
  "('w, 'cfg) env \<Rightarrow> string \<Rightarrow> path \<Rightarrow> 'w world \<Rightarrow> (error + path) \<times> 'w world" where
  "do_Create env name dir s =
     (case chartutil_Create env name dir (outside s) of
        (res, w) \<Rightarrow> (res, called (Call_Create name dir) w s))"

definition do_SaveDir ::
  "('w, 'cfg) env \<Rightarrow> chart_Chart \<Rightarrow> path \<Rightarrow> 'w world \<Rightarrow> error option \<times> 'w world" where
  "do_SaveDir env c dest s =
     (case chartutil_SaveDir env c dest (outside s) of
        (res, w) \<Rightarrow> (res, called (Call_SaveDir (Name c) dest) w s))"

definition do_FindChartInRepoURL ::
  "('w, 'cfg) env \<Rightarrow> string \<Rightarrow> string \<Rightarrow> string \<Rightarrow> 'w world \<Rightarrow> (error + string) \<times> 'w world" where
  "do_FindChartInRepoURL env repoURL chartName chartVersion s =
     (case repo_FindChartInRepoURL env repoURL chartName chartVersion (outside s) of
        (res, w) \<Rightarrow> (res, called (Call_FindChartInRepoURL repoURL chartName chartVersion) w s))"

definition do_DownloadTo ::
  "('w, 'cfg) env \<Rightarrow> string \<Rightarrow> string \<Rightarrow> path \<Rightarrow> 'w world \<Rightarrow> (error + path) \<times> 'w world" where
  "do_DownloadTo env ref version dest s =
     (case downloader_DownloadTo env ref version dest (outside s) of
        (res, w) \<Rightarrow> (res, called (Call_DownloadTo ref version dest) w s))"

definition do_Build ::
  "('w, 'cfg) env \<Rightarrow> path \<Rightarrow> 'w world \<Rightarrow> (error option \<times> string) \<times> 'w world" where
  "do_Build env chartPath s =
     (case downloader_Build env chartPath (outside s) of
        (res, w) \<Rightarrow> (res, called (Call_Build chartPath) w s))"

subsection \<open>The functions of the package\<close>

text \<open>
  Each function takes the state and returns its result with the new state.  The
  helpers return \<open>Inl err\<close> where the source returns its zero values with \<open>err\<close>, and
  \<open>Inr\<close> of the values where it returns them with a \<open>nil\<close> error.  \<open>CreateChart\<close> keeps
  the shape of the three results of the source, \<open>None\<close> for \<open>nil\<close>.
\<close>

definition NewResource :: "('w, 'cfg) env \<Rightarrow> CreateOptions \<Rightarrow> 'cfg \<Rightarrow> resource_Resource" where
  "NewResource env opts cfg =
     (let ro = \<lparr>ro_DoAPI = True, ro_Namespaced = True,
                ro_Domain = opts_Domain opts, ro_CRDVersion = opts_CRDVersion opts,
                ro_Group = gvk_Group (opts_GVK opts), ro_Version = gvk_Version (opts_GVK opts),
                ro_Kind = gvk_Kind (opts_GVK opts)\<rparr>;
          r = golang_NewResource env ro cfg
      in r\<lparr>r_Domain := cfg_GetDomain env cfg, r_Path := ''''\<rparr>)"

definition createChartFromDisk ::
  "('w, 'cfg) env \<Rightarrow> path \<Rightarrow> path \<Rightarrow> 'w world \<Rightarrow> (error + chart_Chart) \<times> 'w world" where
  "createChartFromDisk env destDir source s =
     (case do_Load env source s of
        (Inl err, s1) \<Rightarrow> (Inl err, s1)
      | (Inr chart, s1) \<Rightarrow>
          (case do_SaveDir env chart destDir s1 of
             (Some err, s2) \<Rightarrow> (Inl err, s2)
           | (None, s2) \<Rightarrow> (Inr chart, s2)))"

text \<open>The download and load that end \<open>createChartFromRemote\<close>, shared by its two paths.\<close>

definition createChartFromRemote_download ::
  "('w, 'cfg) env \<Rightarrow> path \<Rightarrow> CreateOptions \<Rightarrow> 'w world \<Rightarrow> (error + chart_Chart) \<times> 'w world" where
  "createChartFromRemote_download env destDir opts s =
     (case do_DownloadTo env (opts_Chart opts) (opts_Version opts) destDir s of
        (Inl err, s1) \<Rightarrow> (Inl err, s1)
      | (Inr chartArchive, s1) \<Rightarrow> createChartFromDisk env destDir chartArchive s1)"

definition createChartFromRemote ::
  "('w, 'cfg) env \<Rightarrow> path \<Rightarrow> CreateOptions \<Rightarrow> 'w world \<Rightarrow> (error + chart_Chart) \<times> 'w world" where
  "createChartFromRemote env destDir opts s =
     (if opts_Repo opts \<noteq> '''' then
        (case do_FindChartInRepoURL env (opts_Repo opts) (opts_Chart opts) (opts_Version opts) s of
           (Inl err, s1) \<Rightarrow> (Inl err, s1)
         | (Inr chartURL, s1) \<Rightarrow>
             createChartFromRemote_download env destDir (opts\<lparr>opts_Chart := chartURL\<rparr>) s1)
      else createChartFromRemote_download env destDir opts s)"

definition scaffoldChart ::
  "('w, 'cfg) env \<Rightarrow> 'cfg \<Rightarrow> path \<Rightarrow> CreateOptions \<Rightarrow> 'w world
     \<Rightarrow> (error + resource_Resource \<times> chart_Chart) \<times> 'w world" where
  "scaffoldChart env cfg destDir opts s =
     (case do_Create env (strings_ToLower env (gvk_Kind (opts_GVK opts))) destDir s of
        (Inl err, s1) \<Rightarrow> (Inl err, s1)
      | (Inr chartPath, s1) \<Rightarrow>
          (case do_Load env chartPath s1 of
             (Inl err, s2) \<Rightarrow> (Inl err, s2)
           | (Inr chart, s2) \<Rightarrow> (Inr (NewResource env opts cfg, chart), s2)))"

definition fetchChart ::
  "('w, 'cfg) env \<Rightarrow> 'cfg \<Rightarrow> path \<Rightarrow> CreateOptions \<Rightarrow> 'w world
     \<Rightarrow> (error + resource_Resource \<times> chart_Chart) \<times> 'w world" where
  "fetchChart env cfg destDir opts s =
     (case do_Stat env (opts_Chart opts) s of
        (statErr, s1) \<Rightarrow>
          (case (if statErr = None then createChartFromDisk env destDir (opts_Chart opts) s1
                 else createChartFromRemote env destDir opts s1) of
             (Inl err, s2) \<Rightarrow> (Inl err, s2)
           | (Inr chart, s2) \<Rightarrow>
               (let chartName = Name chart;
                    gvk = opts_GVK opts;
                    gvk = (if length (gvk_Group gvk) = 0
                           then gvk\<lparr>gvk_Group := DefaultGroup\<rparr> else gvk);
                    gvk = (if length (gvk_Version gvk) = 0
                           then gvk\<lparr>gvk_Version := DefaultVersion\<rparr> else gvk);
                    gvk = (if length (gvk_Kind gvk) = 0
                           then gvk\<lparr>gvk_Kind := strcase_ToCamel env chartName\<rparr> else gvk)
                in (Inr (NewResource env (opts\<lparr>opts_GVK := gvk\<rparr>) cfg, chart), s2))))"

text \<open>
  \<open>fetchChartDependencies\<close>: the manager writes into the buffer \<open>out\<close>; the buffer is
  printed with \<^verbatim>\<open>fmt.Println\<close> when \<open>Build\<close> fails and dropped when it succeeds.
\<close>

definition Println :: "string \<Rightarrow> 'w world \<Rightarrow> 'w world" where
  "Println str s = s\<lparr>stdout := stdout s @ str @ [CHR 0x0A]\<rparr>"

definition fetchChartDependencies ::
  "('w, 'cfg) env \<Rightarrow> path \<Rightarrow> 'w world \<Rightarrow> error option \<times> 'w world" where
  "fetchChartDependencies env chartPath s =
     (case do_Build env chartPath s of
        ((Some err, out), s1) \<Rightarrow> (Some err, Println out s1)
      | ((None, out), s1) \<Rightarrow> (None, s1))"

text \<open>
  \<open>CreateChart\<close> in three parts: the function the source defers (the removal of the
  temporary directory, with the log line when it fails), the dependency resolution and
  reload that follow both branches, and the body between the \<open>defer\<close> and the return.
  The deferred function runs after the body on every path that passed the \<open>defer\<close>
  statement, and cannot change the results: the \<open>err\<close> it assigns is its own.
\<close>

type_synonym CreateChart_result = "resource_Resource option \<times> chart_Chart option \<times> error option"

definition CreateChart_deferred :: "('w, 'cfg) env \<Rightarrow> path \<Rightarrow> 'w world \<Rightarrow> 'w world" where
  "CreateChart_deferred env tmpDir s =
     (case do_RemoveAll env tmpDir s of
        (Some err, s1) \<Rightarrow>
          s1\<lparr>logged := logged s1 @
            [''Failed to remove temporary chart directory '' @ tmpDir @ '': '' @ Error_msg err]\<rparr>
      | (None, s1) \<Rightarrow> s1)"

definition CreateChart_resolve ::
  "('w, 'cfg) env \<Rightarrow> path \<Rightarrow> resource_Resource \<Rightarrow> chart_Chart \<Rightarrow> 'w world
     \<Rightarrow> CreateChart_result \<times> 'w world" where
  "CreateChart_resolve env tmpDir r c s =
     (let absChartPath = filepath_Join env tmpDir (Name c) in
      case fetchChartDependencies env absChartPath s of
        (Some err, s1) \<Rightarrow>
          ((None, None, Some (Errorf ''failed to fetch chart dependencies: '' err)), s1)
      | (None, s1) \<Rightarrow>
          (case do_Load env absChartPath s1 of
             (Inl err, s2) \<Rightarrow> ((None, None, Some (Errorf ''failed to load chart: '' err)), s2)
           | (Inr c', s2) \<Rightarrow> ((Some r, Some c', None), s2)))"

definition CreateChart_body ::
  "('w, 'cfg) env \<Rightarrow> 'cfg \<Rightarrow> CreateOptions \<Rightarrow> path \<Rightarrow> 'w world
     \<Rightarrow> CreateChart_result \<times> 'w world" where
  "CreateChart_body env cfg opts tmpDir s =
     (if length (opts_Chart opts) = 0 then
        (case scaffoldChart env cfg tmpDir opts s of
           (Inl err, s1) \<Rightarrow>
             ((None, None, Some (Errorf ''failed to scaffold default chart: '' err)), s1)
         | (Inr (r, c), s1) \<Rightarrow> CreateChart_resolve env tmpDir r c s1)
      else
        (case fetchChart env cfg tmpDir opts s of
           (Inl err, s1) \<Rightarrow> ((None, None, Some (Errorf ''failed to fetch chart: '' err)), s1)
         | (Inr (r, c), s1) \<Rightarrow> CreateChart_resolve env tmpDir r c s1))"

definition CreateChart ::
  "('w, 'cfg) env \<Rightarrow> 'cfg \<Rightarrow> CreateOptions \<Rightarrow> 'w world \<Rightarrow> CreateChart_result \<times> 'w world" where
  "CreateChart env cfg opts s =
     (case do_TempDir env '''' ''osdk-helm-chart'' s of
        (Inl err, s1) \<Rightarrow> ((None, None, Some err), s1)
      | (Inr tmpDir, s1) \<Rightarrow>
          (case CreateChart_body env cfg opts tmpDir s1 of
             (res, s2) \<Rightarrow> (res, CreateChart_deferred env tmpDir s2)))"

section \<open>The build command (package cmd)\<close>

text \<open>
  Modelled from the spec: the exit codes of the package \<open>cmdError\<close>, which is code of
  the repository that is not among the sources.  \<open>buildFunc\<close> uses two of them, one
  for bad arguments and one for every other error.
\<close>

datatype ExitCode = ExitBadArgs | ExitError

text \<open>
  An invocation of the command has one of three outcomes: \<open>buildFunc\<close> returns, the
  process exits with a code and an error, or the Go runtime panics.
\<close>

datatype outcome = Returned | Exited ExitCode error | Panicked string

text \<open>
  Modelled from the spec: \<open>cmdError.ExitWithError\<close>, which is code of the repository
  that is not among the sources.  The specification says that the argument check of the
  build command rejects the invocation, and the function is named for what it does:
  \<open>ExitWithError code err\<close> ends the process with the exit code \<open>code\<close> after reporting
  \<open>err\<close>, so nothing after the call runs.
\<close>

definition ExitWithError :: "ExitCode \<Rightarrow> error \<Rightarrow> outcome" where
  "ExitWithError code err = Exited code err"

text \<open>
  What \<open>buildFunc\<close> calls outside its file: running a command with variables added to
  the environment and collecting its output (\<^verbatim>\<open>exec.Command(..).CombinedOutput()\<close>),
  reading a file, and the repository's \<open>cmdutil.GetConfig\<close> and \<open>generator\<close> renderers,
  which are taken as parameters.
\<close>

record ('w, 'c) build_env =
  exec_CombinedOutput :: "string \<Rightarrow> string list \<Rightarrow> 'w \<Rightarrow> (string \<times> error option) \<times> 'w"
  ioutil_ReadFile :: "path \<Rightarrow> 'w \<Rightarrow> error + string"
  cmdutil_GetConfig :: "'w \<Rightarrow> 'c"
  generator_RenderOperatorYaml :: "'c \<Rightarrow> string \<Rightarrow> 'w \<Rightarrow> error option \<times> 'w"
  generator_RenderCustomOperatorYaml :: "'c \<Rightarrow> string \<Rightarrow> string \<Rightarrow> 'w \<Rightarrow> error option \<times> 'w"

definition build :: string where
  "build = ''./tmp/build/build.sh''"

definition dockerBuild :: string where
  "dockerBuild = ''./tmp/build/docker_build.sh''"

definition configYaml :: string where
  "configYaml = ''./config/config.yaml''"

definition do_CombinedOutput ::
  "('w, 'c) build_env \<Rightarrow> string \<Rightarrow> string list \<Rightarrow> 'w world
     \<Rightarrow> (string \<times> error option) \<times> 'w world" where
  "do_CombinedOutput benv name vars s =
     (case exec_CombinedOutput benv name vars (outside s) of
        (res, w) \<Rightarrow> (res, called (Call_Command name vars) w s))"

definition do_ReadFile ::
  "('w, 'c) build_env \<Rightarrow> path \<Rightarrow> 'w world \<Rightarrow> (error + string) \<times> 'w world" where
  "do_ReadFile benv p s = (ioutil_ReadFile benv p (outside s), called (Call_ReadFile p) (outside s) s)"

definition do_RenderOperatorYaml ::
  "('w, 'c) build_env \<Rightarrow> 'c \<Rightarrow> string \<Rightarrow> 'w world \<Rightarrow> error option \<times> 'w world" where
  "do_RenderOperatorYaml benv c image' s =
     (case generator_RenderOperatorYaml benv c image' (outside s) of
        (res, w) \<Rightarrow> (res, called (Call_RenderOperatorYaml image') w s))"

definition do_RenderCustomOperatorYaml ::
  "('w, 'c) build_env \<Rightarrow> 'c \<Rightarrow> string \<Rightarrow> string \<Rightarrow> 'w world \<Rightarrow> error option \<times> 'w world" where
  "do_RenderCustomOperatorYaml benv c image' templ s =
     (case generator_RenderCustomOperatorYaml benv c image' templ (outside s) of
        (res, w) \<Rightarrow> (res, called (Call_RenderCustomOperatorYaml image' templ) w s))"

text \<open>The condition of the first \<open>if\<close> of \<open>buildFunc\<close>, as the source writes it.\<close>

definition buildFunc_guard :: "string list \<Rightarrow> bool" where
  "buildFunc_guard args = (length args \<noteq> 1 \<or> length args \<noteq> 2)"

text \<open>
  The end of \<open>buildFunc\<close>, from \<open>cmdutil.GetConfig\<close> on.  With two arguments the source
  reads \<open>args[2]\<close>, which is out of range in a slice of length 2: the runtime panics.
\<close>

definition buildFunc_render ::
  "('w, 'c) build_env \<Rightarrow> string list \<Rightarrow> string \<Rightarrow> 'w world \<Rightarrow> outcome \<times> 'w world" where
  "buildFunc_render benv args image' s =
     (let c = cmdutil_GetConfig benv (outside s) in
      if length args = 1 then
        (case do_RenderOperatorYaml benv c image' s of
           (Some renderErr, s1) \<Rightarrow>
             (ExitWithError ExitError
                (Error (''failed to generate deploy/operator.yaml: ('' @ Error_msg renderErr @ '')'')),
              s1)
         | (None, s1) \<Rightarrow> (Returned, s1))
      else if length args = 2 then
        (if 2 < length args then
           (case do_ReadFile benv (args ! 2) s of
              (Inl fileErr, s1) \<Rightarrow>
                (ExitWithError ExitError
                   (Error (''failed to read template file: ('' @ Error_msg fileErr @ '')'')), s1)
            | (Inr templFile, s1) \<Rightarrow>
                (case do_RenderCustomOperatorYaml benv c image' templFile s1 of
                   (Some renderErr, s2) \<Rightarrow>
                     (ExitWithError ExitError
                        (Error (''failed to generate deploy/operator.yaml: (''
                                  @ Error_msg renderErr @ '')'')), s2)
                 | (None, s2) \<Rightarrow> (Returned, s2)))
         else (Panicked ''index out of range [2] with length 2'', s))
      else (Returned, s))"

definition buildFunc ::
  "('w, 'c) build_env \<Rightarrow> string list \<Rightarrow> 'w world \<Rightarrow> outcome \<times> 'w world" where
  "buildFunc benv args s =
     (if buildFunc_guard args then
        (ExitWithError ExitBadArgs (Error ''build command needs at least 1 argument.''), s)
      else
        (case do_CombinedOutput benv build [] s of
           ((out, Some err), s1) \<Rightarrow>
             (ExitWithError ExitError (Error (''failed to build: ('' @ out @ '')'')), s1)
         | ((out, None), s1) \<Rightarrow>
             (let s2 = Println out s1 in
              case args of
                [] \<Rightarrow> (Panicked ''index out of range [0] with length 0'', s2)
              | image' # _ \<Rightarrow>
                  (case do_CombinedOutput benv dockerBuild [''IMAGE='' @ image'] s2 of
                     ((out', Some err), s3) \<Rightarrow>
                       (ExitWithError ExitError
                          (Error (''failed to output build image '' @ image' @ '': ('' @ out' @ '')'')),
                        s3)
                   | ((out', None), s3) \<Rightarrow> buildFunc_render benv args image' (Println out' s3)))))"

section \<open>A small disk and chart library to run the model on\<close>

text \<open>
  The theorems below hold for every library.  To run the functions on concrete inputs
  the library is instantiated with a small simulation: a disk that maps paths to the
  charts stored there, a list of other directories, a catalogue of charts that can be
  downloaded, a repository index, and three switches for failures of the operating
  system (no room for a temporary directory, paths that cannot be removed).
\<close>

record disk =
  charts :: "(path \<times> chart_Chart) list"
  dirs :: "path list"
  catalogue :: "(string \<times> chart_Chart) list"
  repo_index :: "((string \<times> string) \<times> string) list"
  tmp_suffix :: string
  tmp_full :: bool
  busy :: "path list"

record sim_config =
  config_domain :: string
  config_repo :: string

definition sim_Join :: "path \<Rightarrow> path \<Rightarrow> path" where
  "sim_Join a b = a @ ''/'' @ b"

definition sim_under :: "path \<Rightarrow> path \<Rightarrow> bool" where
  "sim_under p q = (q = p \<or> take (Suc (length p)) q = p @ ''/'')"

definition sim_TempDir :: "string \<Rightarrow> string \<Rightarrow> disk \<Rightarrow> (error + path) \<times> disk" where
  "sim_TempDir dir pattern d =
     (if tmp_full d then (Inl (Error ''mkdir: no space left on device''), d)
      else (let p = sim_Join (if dir = '''' then ''/tmp'' else dir) (pattern @ tmp_suffix d)
            in (Inr p, d\<lparr>dirs := p # dirs d\<rparr>)))"

definition sim_RemoveAll :: "path \<Rightarrow> disk \<Rightarrow> error option \<times> disk" where
  "sim_RemoveAll p d =
     (if p \<in> set (busy d) then (Some (Error (''unlinkat '' @ p @ '': device or resource busy'')), d)
      else (None, d\<lparr>charts := filter (\<lambda>(q, c). \<not> sim_under p q) (charts d),
                     dirs := filter (\<lambda>q. \<not> sim_under p q) (dirs d)\<rparr>))"

definition sim_Stat :: "path \<Rightarrow> disk \<Rightarrow> error option" where
  "sim_Stat p d =
     (if p \<in> set (dirs d) \<or> map_of (charts d) p \<noteq> None then None
      else Some (Error (''stat '' @ p @ '': no such file or directory'')))"

definition sim_Load :: "path \<Rightarrow> disk \<Rightarrow> error + chart_Chart" where
  "sim_Load p d =
     (case map_of (charts d) p of
        None \<Rightarrow> Inl (Error ''Chart.yaml file is missing'')
      | Some c \<Rightarrow> Inr c)"

definition sim_default_chart :: "string \<Rightarrow> chart_Chart" where
  "sim_default_chart name =
     \<lparr>Metadata_Name = name, Metadata_Dependencies = [],
      Templates = [(''templates/deployment.yaml'', ''kind: Deployment''),
                   (''templates/service.yaml'', ''kind: Service'')]\<rparr>"

definition sim_Create :: "string \<Rightarrow> path \<Rightarrow> disk \<Rightarrow> (error + path) \<times> disk" where
  "sim_Create name dir d =
     (if dir \<in> set (dirs d)
      then (Inr (sim_Join dir name),
            d\<lparr>charts := (sim_Join dir name, sim_default_chart name) # charts d\<rparr>)
      else (Inl (Error (''no such directory '' @ dir)), d))"

definition sim_SaveDir :: "chart_Chart \<Rightarrow> path \<Rightarrow> disk \<Rightarrow> error option \<times> disk" where
  "sim_SaveDir c dest d =
     (if dest \<in> set (dirs d)
      then (None, d\<lparr>charts := (sim_Join dest (Name c), c) # charts d\<rparr>)
      else (Some (Error (''no such directory '' @ dest)), d))"

definition sim_FindChartInRepoURL ::
  "string \<Rightarrow> string \<Rightarrow> string \<Rightarrow> disk \<Rightarrow> (error + string) \<times> disk" where
  "sim_FindChartInRepoURL repoURL chartName chartVersion d =
     (case map_of (repo_index d) (repoURL, chartName) of
        None \<Rightarrow> (Inl (Error (chartName @ '' not found in '' @ repoURL @ '' repository'')), d)
      | Some url \<Rightarrow> (Inr url, d))"

definition sim_DownloadTo :: "string \<Rightarrow> string \<Rightarrow> path \<Rightarrow> disk \<Rightarrow> (error + path) \<times> disk" where
  "sim_DownloadTo ref version dest d =
     (case map_of (catalogue d) ref of
        None \<Rightarrow> (Inl (Error (''chart '' @ ref @ '' not found'')), d)
      | Some c \<Rightarrow>
          (Inr (sim_Join dest (Name c @ ''.tgz'')),
           d\<lparr>charts := (sim_Join dest (Name c @ ''.tgz''), c) # charts d\<rparr>))"

definition sim_Build :: "path \<Rightarrow> disk \<Rightarrow> (error option \<times> string) \<times> disk" where
  "sim_Build p d =
     (case map_of (charts d) p of
        None \<Rightarrow> ((Some (Error ''could not load chart''), ''''), d)
      | Some c \<Rightarrow>
          (case filter (\<lambda>dep. map_of (catalogue d) dep = None) (Metadata_Dependencies c) of
             [] \<Rightarrow> ((None, ''Saving charts''), d)
           | dep # _ \<Rightarrow>
               ((Some (Error (''no repository definition for '' @ dep)),
                 ''Getting updates for unmanaged Helm repositories...''), d)))"

definition sim_lower :: "char \<Rightarrow> char" where
  "sim_lower c =
     (case map_of (zip ''ABCDEFGHIJKLMNOPQRSTUVWXYZ'' ''abcdefghijklmnopqrstuvwxyz'') c of
        None \<Rightarrow> c | Some l \<Rightarrow> l)"

definition sim_upper :: "char \<Rightarrow> char" where
  "sim_upper c =
     (case map_of (zip ''abcdefghijklmnopqrstuvwxyz'' ''ABCDEFGHIJKLMNOPQRSTUVWXYZ'') c of
        None \<Rightarrow> c | Some u \<Rightarrow> u)"

fun sim_camel :: "bool \<Rightarrow> string \<Rightarrow> string" where
  "sim_camel cap [] = []"
| "sim_camel cap (c # cs) =
     (if c \<in> set ''abcdefghijklmnopqrstuvwxyz''
      then (if cap then sim_upper c else c) # sim_camel False cs
      else if c \<in> set ''ABCDEFGHIJKLMNOPQRSTUVWXYZ'' then c # sim_camel False cs
      else if c \<in> set ''0123456789'' then c # sim_camel True cs
      else sim_camel (c \<in> set ''_ -.'') cs)"

definition sim_NewResource :: "golang_Options \<Rightarrow> sim_config \<Rightarrow> resource_Resource" where
  "sim_NewResource ro cfg =
     \<lparr>r_Group = ro_Group ro, r_Domain = ro_Domain ro, r_Version = ro_Version ro,
      r_Kind = ro_Kind ro, r_Plural = map sim_lower (ro_Kind ro) @ ''s'',
      r_Path = config_repo cfg @ ''/api/'' @ ro_Version ro\<rparr>"

definition sim :: "(disk, sim_config) env" where
  "sim =
     \<lparr>ioutil_TempDir = sim_TempDir, os_RemoveAll = sim_RemoveAll, os_Stat = sim_Stat,
      filepath_Join = sim_Join, strings_ToLower = map sim_lower,
      strcase_ToCamel = sim_camel True, loader_Load = sim_Load,
      chartutil_Create = sim_Create, chartutil_SaveDir = sim_SaveDir,
      repo_FindChartInRepoURL = sim_FindChartInRepoURL,
      downloader_DownloadTo = sim_DownloadTo, downloader_Build = sim_Build,
      golang_NewResource = sim_NewResource, cfg_GetDomain = config_domain\<rparr>"

text \<open>
  Sample inputs: a disk with the chart directories \<open>./local-chart\<close> (the chart
  \<open>my-app\<close>) and \<open>./shop\<close> (a chart with a dependency that no repository has), a
  catalogue with one remote chart, a project configuration, and a build environment
  whose scripts succeed.
\<close>

definition my_app :: chart_Chart where
  "my_app = \<lparr>Metadata_Name = ''my-app'', Metadata_Dependencies = [],
             Templates = [(''templates/app.yaml'', ''kind: Deployment'')]\<rparr>"

definition redis :: chart_Chart where
  "redis = \<lparr>Metadata_Name = ''redis'', Metadata_Dependencies = [],
            Templates = [(''templates/redis.yaml'', ''kind: StatefulSet'')]\<rparr>"

definition shop :: chart_Chart where
  "shop = \<lparr>Metadata_Name = ''shop'', Metadata_Dependencies = [''stable/mysql''],
           Templates = [(''templates/shop.yaml'', ''kind: Deployment'')]\<rparr>"

definition disk0 :: disk where
  "disk0 = \<lparr>charts = [(''./local-chart'', my_app), (''./shop'', shop)], dirs = [''/tmp''],
            catalogue = [(''stable/redis'', redis), (''https://charts.example.com/redis-1.0.tgz'', redis)],
            repo_index = [((''https://charts.example.com'', ''redis''),
                           ''https://charts.example.com/redis-1.0.tgz'')],
            tmp_suffix = ''042'', tmp_full = False, busy = []\<rparr>"

definition start :: "disk \<Rightarrow> disk world" where
  "start d = \<lparr>outside = d, calls = [], logged = [], stdout = ''''\<rparr>"

definition config0 :: sim_config where
  "config0 = \<lparr>config_domain = ''example.com'', config_repo = ''github.com/example/app''\<rparr>"

definition build_sim :: "(disk, sim_config) build_env" where
  "build_sim =
     \<lparr>exec_CombinedOutput = (\<lambda>name vars d. ((''built'', None), d)),
      ioutil_ReadFile = (\<lambda>p d. Inl (Error (''open '' @ p @ '': no such file or directory''))),
      cmdutil_GetConfig = (\<lambda>d. config0),
      generator_RenderOperatorYaml = (\<lambda>c image' d. (None, d)),
      generator_RenderCustomOperatorYaml = (\<lambda>c image' templ d. (None, d))\<rparr>"

definition options0 :: CreateOptions where
  "options0 = \<lparr>opts_GVK = \<lparr>gvk_Group = '''', gvk_Version = '''', gvk_Kind = ''''\<rparr>,
               opts_Chart = '''', opts_Repo = '''', opts_Version = '''',
               opts_CRDVersion = ''v1'', opts_Domain = ''other.org''\<rparr>"

section \<open>Notions used to state the properties\<close>

text \<open>The library calls made between two states, and the calls that go to a remote repository.\<close>

definition new_calls :: "'w world \<Rightarrow> 'w world \<Rightarrow> call list" where
  "new_calls s s' = drop (length (calls s)) (calls s')"

fun remote_call :: "call \<Rightarrow> bool" where
  "remote_call (Call_FindChartInRepoURL repoURL chartName chartVersion) = True"
| "remote_call (Call_DownloadTo ref version dest) = True"
| "remote_call c = False"

text \<open>The calls that only \<open>fetchChart\<close> and the functions below it make.\<close>

fun fetch_call :: "call \<Rightarrow> bool" where
  "fetch_call (Call_Stat p) = True"
| "fetch_call (Call_SaveDir name dest) = True"
| "fetch_call c = remote_call c"

text \<open>
  The context that \<open>CreateChart\<close> puts in front of the error of each of its four stages,
  and the test that an error carries one of them.
\<close>

definition stage_contexts :: "string list" where
  "stage_contexts =
     [''failed to scaffold default chart: '', ''failed to fetch chart: '',
      ''failed to fetch chart dependencies: '', ''failed to load chart: '']"

definition has_stage_context :: "error \<Rightarrow> bool" where
  "has_stage_context err =
     list_ex (\<lambda>ctx. take (length ctx) (Error_msg err) = ctx) stage_contexts"

text \<open>
  What the documentation of the libraries promises, as far as the properties below
  depend on it.  \<open>os.RemoveAll\<close>: when it returns no error the path is gone.
  \<open>chartutil.Create\<close>: the chart is written to the directory joined with the name; what
  loads from there, or from the path that is returned, has that name.
  \<open>chartutil.SaveDir\<close>: the chart is written to the directory joined with its name, and
  loads from there with the same name, dependencies and templates.  \<open>Manager.Build\<close>:
  a chart that loads after it loaded before it, under the same name; and a chart
  without declared dependencies is left as it is.  \<open>golang.Options.NewResource\<close>: the
  group, version and kind of the resource are those of the options.
\<close>

definition RemoveAll_removes :: "('w, 'cfg) env \<Rightarrow> bool" where
  "RemoveAll_removes env \<longleftrightarrow>
     (\<forall>p w w'. os_RemoveAll env p w = (None, w') \<longrightarrow> os_Stat env p w' \<noteq> None)"

definition Create_names_chart :: "('w, 'cfg) env \<Rightarrow> bool" where
  "Create_names_chart env \<longleftrightarrow>
     (\<forall>name dir w p w' c. chartutil_Create env name dir w = (Inr p, w') \<longrightarrow>
        loader_Load env p w' = Inr c \<or> loader_Load env (filepath_Join env dir name) w' = Inr c \<longrightarrow>
        Name c = name)"

definition SaveDir_then_Load :: "('w, 'cfg) env \<Rightarrow> bool" where
  "SaveDir_then_Load env \<longleftrightarrow>
     (\<forall>c dest w w'. chartutil_SaveDir env c dest w = (None, w') \<longrightarrow>
        (\<exists>c'. loader_Load env (filepath_Join env dest (Name c)) w' = Inr c' \<and>
              Name c' = Name c \<and> Metadata_Dependencies c' = Metadata_Dependencies c \<and>
              set (Templates c') = set (Templates c)))"

definition Build_keeps_name :: "('w, 'cfg) env \<Rightarrow> bool" where
  "Build_keeps_name env \<longleftrightarrow>
     (\<forall>p w res w' c'. downloader_Build env p w = (res, w') \<longrightarrow>
        loader_Load env p w' = Inr c' \<longrightarrow>
        (\<exists>c. loader_Load env p w = Inr c \<and> Name c = Name c'))"

definition Build_without_dependencies :: "('w, 'cfg) env \<Rightarrow> bool" where
  "Build_without_dependencies env \<longleftrightarrow>
     (\<forall>p w res w' c. downloader_Build env p w = (res, w') \<longrightarrow>
        loader_Load env p w = Inr c \<longrightarrow> Metadata_Dependencies c = [] \<longrightarrow>
        loader_Load env p w' = Inr c)"

definition NewResource_keeps_GVK :: "('w, 'cfg) env \<Rightarrow> bool" where
  "NewResource_keeps_GVK env \<longleftrightarrow>
     (\<forall>ro cfg. r_Group (golang_NewResource env ro cfg) = ro_Group ro \<and>
               r_Version (golang_NewResource env ro cfg) = ro_Version ro \<and>
               r_Kind (golang_NewResource env ro cfg) = ro_Kind ro)"

section \<open>Basic facts about the state\<close>

lemma called_simps [simp]:
  "outside (called c w s) = w"
  "calls (called c w s) = calls s @ [c]"
  "logged (called c w s) = logged s"
  "stdout (called c w s) = stdout s"
  by (simp_all add: called_def)

lemma Println_simps [simp]:
  "outside (Println str s) = outside s"
  "calls (Println str s) = calls s"
  "logged (Println str s) = logged s"
  "stdout (Println str s) = stdout s @ str @ [CHR 0x0A]"
  by (simp_all add: Println_def)

lemmas do_defs = do_TempDir_def do_RemoveAll_def do_Stat_def do_Load_def do_Create_def
  do_SaveDir_def do_FindChartInRepoURL_def do_DownloadTo_def do_Build_def

lemmas CreateChart_defs = CreateChart_def CreateChart_body_def CreateChart_resolve_def
  CreateChart_deferred_def scaffoldChart_def fetchChart_def createChartFromDisk_def
  createChartFromRemote_def createChartFromRemote_download_def fetchChartDependencies_def
  NewResource_def DefaultGroup_def DefaultVersion_def Name_def Errorf_def

lemmas sim_defs = sim_def sim_TempDir_def sim_RemoveAll_def sim_Stat_def sim_Load_def
  sim_Create_def sim_SaveDir_def sim_FindChartInRepoURL_def sim_DownloadTo_def sim_Build_def
  sim_Join_def sim_under_def sim_NewResource_def sim_default_chart_def sim_lower_def sim_upper_def
  options0_def config0_def start_def disk0_def my_app_def shop_def redis_def

lemmas run_defs = CreateChart_defs do_defs sim_defs new_calls_def Let_def

lemma new_calls_append [simp]: "calls s' = calls s @ tr \<Longrightarrow> new_calls s s' = tr"
  by (simp add: new_calls_def)

lemma remote_call_fetch_call: "remote_call c \<Longrightarrow> fetch_call c"
  by (cases c) simp_all

lemma list_ex_remote_fetch: "\<not> list_ex fetch_call tr \<Longrightarrow> \<not> list_ex remote_call tr"
  by (auto simp: list_ex_iff dest: remote_call_fetch_call)

section \<open>The simulated library keeps the promises of the documentation\<close>

lemma map_of_filter_fst:
  "\<not> P p \<Longrightarrow> map_of (filter (\<lambda>(q, c). P q) xs) p = None"
  by (induction xs) auto

lemma sim_RemoveAll_removes: "RemoveAll_removes sim"
  unfolding RemoveAll_removes_def
  by (auto simp: sim_def sim_RemoveAll_def sim_Stat_def sim_under_def map_of_filter_fst
           split: if_splits)

lemma sim_Create_names_chart: "Create_names_chart sim"
  unfolding Create_names_chart_def
  by (auto simp: sim_def sim_Create_def sim_Load_def sim_default_chart_def Name_def split: if_splits)

lemma sim_SaveDir_then_Load: "SaveDir_then_Load sim"
  unfolding SaveDir_then_Load_def
  by (auto simp: sim_def sim_SaveDir_def sim_Load_def split: if_splits)

lemma sim_Build_outside: "sim_Build p d = (res, d') \<Longrightarrow> d' = d"
  by (auto simp: sim_Build_def split: option.splits list.splits)

lemma sim_Build_keeps_name: "Build_keeps_name sim"
  unfolding Build_keeps_name_def
  by (auto simp: sim_def dest!: sim_Build_outside)

lemma sim_Build_without_dependencies: "Build_without_dependencies sim"
  unfolding Build_without_dependencies_def
  by (auto simp: sim_def dest!: sim_Build_outside)

lemma sim_NewResource_keeps_GVK: "NewResource_keeps_GVK sim"
  by (simp add: NewResource_keeps_GVK_def sim_def sim_NewResource_def)

text \<open>Runs of the model on the sample disk, evaluated by rewriting.\<close>

lemma sim_TempDir_disk0:
  "ioutil_TempDir sim '''' ''osdk-helm-chart'' (outside (start disk0)) =
     (Inr ''/tmp/osdk-helm-chart042'', disk0\<lparr>dirs := [''/tmp/osdk-helm-chart042'', ''/tmp'']\<rparr>)"
  by (simp add: sim_defs Let_def)

lemma sim_fetchChart_local:
  "fst (fetchChart sim config0 ''/tmp'' (options0\<lparr>opts_Chart := ''./local-chart''\<rparr>) (start disk0)) =
     Inr (\<lparr>r_Group = ''charts'', r_Domain = ''example.com'', r_Version = ''v1alpha1'',
           r_Kind = ''MyApp'', r_Plural = ''myapps'', r_Path = ''''\<rparr>, my_app)"
  by (simp add: CreateChart_defs do_defs sim_defs Let_def)

lemma sim_CreateChart_local:
  "fst (CreateChart sim config0 (options0\<lparr>opts_Chart := ''./local-chart''\<rparr>) (start disk0)) =
     (Some \<lparr>r_Group = ''charts'', r_Domain = ''example.com'', r_Version = ''v1alpha1'',
            r_Kind = ''MyApp'', r_Plural = ''myapps'', r_Path = ''''\<rparr>, Some my_app, None)"
  by (simp add: run_defs)

section \<open>Properties of the build command\<close>

text \<open>
  Claim C8.  The argument check of \<open>buildFunc\<close> rejects every invocation with exactly
  one argument: for such a list the condition of the first \<open>if\<close> holds, and the
  invocation exits with the code \<open>ExitBadArgs\<close> in the state it started in, so no
  build script has been run (the list of calls is unchanged).
\<close>

theorem buildFunc_single_argument:
  "length args = 1 \<Longrightarrow>
     buildFunc_guard args \<and>
     buildFunc benv args s =
       (Exited ExitBadArgs (Error ''build command needs at least 1 argument.''), s)"
  by (simp add: buildFunc_guard_def buildFunc_def ExitWithError_def)

theorem buildFunc_single_argument_witness:
  "length [''quay.io/example/operator:v0.0.1''] = 1 \<and>
   buildFunc build_sim [''quay.io/example/operator:v0.0.1''] (start disk0) =
     (Exited ExitBadArgs (Error ''build command needs at least 1 argument.''), start disk0)"
  using buildFunc_single_argument [of "[''quay.io/example/operator:v0.0.1'']" build_sim "start disk0"]
  by simp

section \<open>Properties of chart creation\<close>

subsection \<open>Dependency resolution\<close>

text \<open>
  Claim C7.  Dependency resolution hands the manager a buffer for its output.  Whatever
  \<open>Build\<close> returns, \<open>fetchChartDependencies\<close> returns the same error; the buffer is
  written to standard output (followed by a newline) exactly when \<open>Build\<close> failed, and
  standard output is left as it was when \<open>Build\<close> succeeded; nothing is logged.
\<close>

theorem fetchChartDependencies_output:
  assumes "downloader_Build env chartPath (outside s) = ((err, out), w)"
  shows "fst (fetchChartDependencies env chartPath s) = err \<and>
         stdout (snd (fetchChartDependencies env chartPath s)) =
           (case err of None \<Rightarrow> stdout s | Some e \<Rightarrow> stdout s @ out @ [CHR 0x0A]) \<and>
         logged (snd (fetchChartDependencies env chartPath s)) = logged s \<and>
         (stdout (snd (fetchChartDependencies env chartPath s)) \<noteq> stdout s \<longleftrightarrow> err \<noteq> None)"
  using assms by (cases err) (simp_all add: fetchChartDependencies_def do_Build_def)

lemma sim_Build_shop:
  "downloader_Build sim ''./shop'' (outside (start disk0)) =
     ((Some (Error ''no repository definition for stable/mysql''),
       ''Getting updates for unmanaged Helm repositories...''), disk0)"
  by (simp add: sim_def sim_Build_def start_def disk0_def shop_def my_app_def redis_def)

lemma sim_Build_local_chart:
  "downloader_Build sim ''./local-chart'' (outside (start disk0)) =
     ((None, ''Saving charts''), disk0)"
  by (simp add: sim_def sim_Build_def start_def disk0_def shop_def my_app_def redis_def)

theorem fetchChartDependencies_output_witness:
  "fst (fetchChartDependencies sim ''./shop'' (start disk0)) =
     Some (Error ''no repository definition for stable/mysql'') \<and>
   stdout (snd (fetchChartDependencies sim ''./shop'' (start disk0))) =
     ''Getting updates for unmanaged Helm repositories...'' @ [CHR 0x0A] \<and>
   fst (fetchChartDependencies sim ''./local-chart'' (start disk0)) = None \<and>
   stdout (snd (fetchChartDependencies sim ''./local-chart'' (start disk0))) = ''''"
  using fetchChartDependencies_output [OF sim_Build_shop]
        fetchChartDependencies_output [OF sim_Build_local_chart]
  by (simp add: start_def)

subsection \<open>The two ways out of the temporary directory\<close>

lemma CreateChart_TempDir_fails:
  assumes "ioutil_TempDir env '''' ''osdk-helm-chart'' (outside s) = (Inl err, w1)"
  shows "CreateChart env cfg opts s =
           ((None, None, Some err), called (Call_TempDir '''' ''osdk-helm-chart'') w1 s)"
  using assms by (simp add: CreateChart_def do_TempDir_def)

lemma CreateChart_TempDir_succeeds:
  assumes "ioutil_TempDir env '''' ''osdk-helm-chart'' (outside s) = (Inr tmpDir, w1)"
  shows "CreateChart env cfg opts s =
           (fst (CreateChart_body env cfg opts tmpDir (called (Call_TempDir '''' ''osdk-helm-chart'') w1 s)),
            CreateChart_deferred env tmpDir
              (snd (CreateChart_body env cfg opts tmpDir
                      (called (Call_TempDir '''' ''osdk-helm-chart'') w1 s))))"
  using assms by (simp add: CreateChart_def do_TempDir_def split: prod.splits)

lemma CreateChart_deferred_calls [simp]:
  "calls (CreateChart_deferred env tmpDir s) = calls s @ [Call_RemoveAll tmpDir]"
  by (simp add: CreateChart_deferred_def do_RemoveAll_def split: prod.splits option.splits)

lemma CreateChart_chart_cases:
  assumes "fst (CreateChart env cfg opts s) = (r, Some c', err)"
  obtains tmpDir w1 s2 where
    "ioutil_TempDir env '''' ''osdk-helm-chart'' (outside s) = (Inr tmpDir, w1)"
    "CreateChart_body env cfg opts tmpDir (called (Call_TempDir '''' ''osdk-helm-chart'') w1 s) =
       ((r, Some c', err), s2)"
proof -
  obtain res w1 where t: "ioutil_TempDir env '''' ''osdk-helm-chart'' (outside s) = (res, w1)"
    by (cases "ioutil_TempDir env '''' ''osdk-helm-chart'' (outside s)")
  show thesis
  proof (cases res)
    case (Inl e)
    with t assms show thesis by (simp add: CreateChart_TempDir_fails)
  next
    case (Inr tmpDir)
    with t assms that [of tmpDir w1] show thesis
      by (cases "CreateChart_body env cfg opts tmpDir (called (Call_TempDir '''' ''osdk-helm-chart'') w1 s)")
         (simp add: CreateChart_TempDir_succeeds)
  qed
qed

lemma CreateChart_resolve_run:
  assumes "downloader_Build env (filepath_Join env tmpDir (Name c)) (outside s) = ((berr, out), w)"
  shows "fst (CreateChart_resolve env tmpDir r c s) =
           (case berr of
              Some cause \<Rightarrow> (None, None, Some (Errorf ''failed to fetch chart dependencies: '' cause))
            | None \<Rightarrow>
                (case loader_Load env (filepath_Join env tmpDir (Name c)) w of
                   Inl cause \<Rightarrow> (None, None, Some (Errorf ''failed to load chart: '' cause))
                 | Inr c' \<Rightarrow> (Some r, Some c', None)))"
  using assms
  by (cases berr)
     (simp_all add: CreateChart_resolve_def fetchChartDependencies_def do_Build_def do_Load_def
        Let_def split: sum.splits)

lemma CreateChart_acquired:
  assumes tmp: "ioutil_TempDir env '''' ''osdk-helm-chart'' (outside s) = (Inr tmpDir, w1)"
    and acq: "(if opts_Chart opts = ''''
               then scaffoldChart env cfg tmpDir opts (called (Call_TempDir '''' ''osdk-helm-chart'') w1 s)
               else fetchChart env cfg tmpDir opts (called (Call_TempDir '''' ''osdk-helm-chart'') w1 s)) =
              (Inr (r, c), s2)"
  shows "fst (CreateChart env cfg opts s) = fst (CreateChart_resolve env tmpDir r c s2)"
  using acq
  by (simp add: CreateChart_TempDir_succeeds [OF tmp] CreateChart_body_def split: if_splits)

lemma CreateChart_not_acquired:
  assumes tmp: "ioutil_TempDir env '''' ''osdk-helm-chart'' (outside s) = (Inr tmpDir, w1)"
    and acq: "(if opts_Chart opts = ''''
               then scaffoldChart env cfg tmpDir opts (called (Call_TempDir '''' ''osdk-helm-chart'') w1 s)
               else fetchChart env cfg tmpDir opts (called (Call_TempDir '''' ''osdk-helm-chart'') w1 s)) =
              (Inl cause, s2)"
  shows "fst (CreateChart env cfg opts s) =
           (None, None,
            Some (Errorf (if opts_Chart opts = '''' then ''failed to scaffold default chart: ''
                          else ''failed to fetch chart: '') cause))"
  using acq
  by (simp add: CreateChart_TempDir_succeeds [OF tmp] CreateChart_body_def split: if_splits)

subsection \<open>The resource\<close>

lemma NewResource_fields:
  "r_Path (NewResource env opts cfg) = ''''"
  "r_Domain (NewResource env opts cfg) = cfg_GetDomain env cfg"
  by (simp_all add: NewResource_def Let_def)

lemma scaffoldChart_resource:
  "scaffoldChart env cfg destDir opts s = (Inr (r, c), s') \<Longrightarrow> r = NewResource env opts cfg"
  by (auto simp: scaffoldChart_def split: prod.splits sum.splits)

lemma fetchChart_resource:
  "fetchChart env cfg destDir opts s = (Inr (r, c), s') \<Longrightarrow> \<exists>opts'. r = NewResource env opts' cfg"
  by (auto simp: fetchChart_def Let_def split: prod.splits sum.splits)

lemma CreateChart_resolve_resource:
  "CreateChart_resolve env tmpDir r c s = ((Some r', c', err), s') \<Longrightarrow> r' = r"
  by (auto simp: CreateChart_resolve_def Let_def split: prod.splits sum.splits option.splits)

lemma CreateChart_body_resource:
  "CreateChart_body env cfg opts tmpDir s = ((Some r, c, err), s') \<Longrightarrow>
     \<exists>opts'. r = NewResource env opts' cfg"
  by (auto simp: CreateChart_body_def split: prod.splits sum.splits if_splits
           dest!: CreateChart_resolve_resource scaffoldChart_resource fetchChart_resource)

lemma CreateChart_resource:
  "CreateChart env cfg opts s = ((Some r, c, err), s') \<Longrightarrow>
     \<exists>opts'. r = NewResource env opts' cfg"
  by (auto simp: CreateChart_def split: prod.splits sum.splits dest: CreateChart_body_resource)

text \<open>
  Claim C9.  The resource that \<open>NewResource\<close> builds has an empty path, and its domain
  is the one the project configuration gives (\<open>cfg.GetDomain()\<close>), whatever domain the
  options carry.  Every resource that \<open>CreateChart\<close> returns is built by \<open>NewResource\<close>,
  so it has both properties.
\<close>

theorem NewResource_path_less:
  "r_Path (NewResource env opts cfg) = '''' \<and>
   r_Domain (NewResource env opts cfg) = cfg_GetDomain env cfg \<and>
   (fst (CreateChart env cfg opts s) = (Some r, c, err) \<longrightarrow>
      r_Path r = '''' \<and> r_Domain r = cfg_GetDomain env cfg)"
proof -
  have "r_Path r = '''' \<and> r_Domain r = cfg_GetDomain env cfg"
    if "fst (CreateChart env cfg opts s) = (Some r, c, err)"
  proof -
    from that have "CreateChart env cfg opts s = ((Some r, c, err), snd (CreateChart env cfg opts s))"
      by (metis prod.collapse)
    then obtain opts' where "r = NewResource env opts' cfg"
      using CreateChart_resource [of env cfg opts s r c err] by blast
    then show ?thesis by (simp add: NewResource_fields)
  qed
  then show ?thesis by (simp add: NewResource_fields)
qed

theorem NewResource_path_less_witness:
  "fst (CreateChart sim config0 (options0\<lparr>opts_Chart := ''./local-chart''\<rparr>) (start disk0)) =
     (Some \<lparr>r_Group = ''charts'', r_Domain = ''example.com'', r_Version = ''v1alpha1'',
            r_Kind = ''MyApp'', r_Plural = ''myapps'', r_Path = ''''\<rparr>, Some my_app, None) \<and>
   opts_Domain (options0\<lparr>opts_Chart := ''./local-chart''\<rparr>) = ''other.org'' \<and>
   cfg_GetDomain sim config0 = ''example.com'' \<and>
   r_Path (sim_NewResource \<lparr>ro_DoAPI = True, ro_Namespaced = True, ro_Domain = ''other.org'',
      ro_CRDVersion = ''v1'', ro_Group = ''charts'', ro_Version = ''v1alpha1'', ro_Kind = ''MyApp''\<rparr> config0)
     = ''github.com/example/app/api/v1alpha1''"
  using NewResource_path_less [where env = sim and opts = "options0\<lparr>opts_Chart := ''./local-chart''\<rparr>"
      and cfg = config0 and s = "start disk0" and c = "Some my_app" and err = None] sim_CreateChart_local
  by (simp add: options0_def sim_def config0_def sim_NewResource_def)

subsection \<open>Defaults of group, version and kind\<close>

text \<open>
  Claim C4.  When \<open>fetchChart\<close> has acquired a chart \<open>c\<close> (from disk or from a
  repository), the resource it returns is built from the options in which every empty
  field of the GVK is replaced: the group by \<open>charts\<close>, the version by \<open>v1alpha1\<close>, the
  kind by \<open>strcase.ToCamel\<close> of the name of \<open>c\<close>; a field that was given stays.  As
  Kubebuilder copies group, version and kind into the resource, these are the fields
  of the returned resource; for a chart named \<open>my-app\<close> and an empty GVK they are
  \<open>charts\<close>, \<open>v1alpha1\<close> and \<open>MyApp\<close>, the camel case of \<open>my-app\<close>.
\<close>

theorem fetchChart_defaults:
  assumes "fst (fetchChart env cfg destDir opts s) = Inr (r, c)"
  shows "r = NewResource env
               (opts\<lparr>opts_GVK :=
                  \<lparr>gvk_Group = (if gvk_Group (opts_GVK opts) = '''' then ''charts''
                                else gvk_Group (opts_GVK opts)),
                   gvk_Version = (if gvk_Version (opts_GVK opts) = '''' then ''v1alpha1''
                                  else gvk_Version (opts_GVK opts)),
                   gvk_Kind = (if gvk_Kind (opts_GVK opts) = '''' then strcase_ToCamel env (Name c)
                               else gvk_Kind (opts_GVK opts))\<rparr>\<rparr>) cfg \<and>
         (NewResource_keeps_GVK env \<longrightarrow>
            r_Group r = (if gvk_Group (opts_GVK opts) = '''' then ''charts''
                         else gvk_Group (opts_GVK opts)) \<and>
            r_Version r = (if gvk_Version (opts_GVK opts) = '''' then ''v1alpha1''
                           else gvk_Version (opts_GVK opts)) \<and>
            r_Kind r = (if gvk_Kind (opts_GVK opts) = '''' then strcase_ToCamel env (Name c)
                        else gvk_Kind (opts_GVK opts))) \<and>
         (NewResource_keeps_GVK env \<and>
          opts_GVK opts = \<lparr>gvk_Group = '''', gvk_Version = '''', gvk_Kind = ''''\<rparr> \<and>
          Name c = ''my-app'' \<and> strcase_ToCamel env ''my-app'' = ''MyApp'' \<longrightarrow>
            r_Group r = ''charts'' \<and> r_Version r = ''v1alpha1'' \<and> r_Kind r = ''MyApp'')"
proof -
  let ?gvk = "\<lparr>gvk_Group = (if gvk_Group (opts_GVK opts) = '''' then ''charts''
                                else gvk_Group (opts_GVK opts)),
                   gvk_Version = (if gvk_Version (opts_GVK opts) = '''' then ''v1alpha1''
                                  else gvk_Version (opts_GVK opts)),
                   gvk_Kind = (if gvk_Kind (opts_GVK opts) = '''' then strcase_ToCamel env (Name c)
                               else gvk_Kind (opts_GVK opts))\<rparr>"
  obtain g v k where gvk: "opts_GVK opts = \<lparr>gvk_Group = g, gvk_Version = v, gvk_Kind = k\<rparr>"
    by (cases "opts_GVK opts")
  have r: "r = NewResource env (opts\<lparr>opts_GVK := ?gvk\<rparr>) cfg"
    using assms
    by (auto simp: gvk fetchChart_def do_Stat_def Let_def DefaultGroup_def DefaultVersion_def
             split: prod.splits sum.splits if_splits)
  have keep: "r_Group r = gvk_Group ?gvk \<and> r_Version r = gvk_Version ?gvk \<and> r_Kind r = gvk_Kind ?gvk"
    if "NewResource_keeps_GVK env"
    using that unfolding r NewResource_keeps_GVK_def NewResource_def Let_def by simp
  show ?thesis
    using r keep by auto
qed

theorem fetchChart_defaults_witness:
  "fst (fetchChart sim config0 ''/tmp'' (options0\<lparr>opts_Chart := ''./local-chart''\<rparr>) (start disk0)) =
     Inr (\<lparr>r_Group = ''charts'', r_Domain = ''example.com'', r_Version = ''v1alpha1'',
           r_Kind = ''MyApp'', r_Plural = ''myapps'', r_Path = ''''\<rparr>, my_app) \<and>
   NewResource_keeps_GVK sim \<and> Name my_app = ''my-app'' \<and>
   strcase_ToCamel sim ''my-app'' = ''MyApp'' \<and>
   opts_GVK (options0\<lparr>opts_Chart := ''./local-chart''\<rparr>) =
     \<lparr>gvk_Group = '''', gvk_Version = '''', gvk_Kind = ''''\<rparr>"
  using fetchChart_defaults [OF sim_fetchChart_local] sim_NewResource_keeps_GVK sim_fetchChart_local
  by (simp add: Name_def my_app_def sim_def sim_upper_def options0_def)

subsection \<open>A local path is tried before any repository\<close>

lemma createChartFromDisk_calls:
  "\<exists>tr. calls (snd (createChartFromDisk env destDir source s)) = calls s @ Call_Load source # tr \<and>
        \<not> list_ex remote_call tr"
  by (auto simp: createChartFromDisk_def do_defs split: prod.splits sum.splits option.splits)

lemma createChartFromRemote_download_calls:
  "\<exists>tr. calls (snd (createChartFromRemote_download env destDir opts s)) =
          calls s @ Call_DownloadTo (opts_Chart opts) (opts_Version opts) destDir # tr"
proof (cases "downloader_DownloadTo env (opts_Chart opts) (opts_Version opts) destDir (outside s)")
  case (Pair res w)
  show ?thesis
  proof (cases res)
    case (Inl err)
    with Pair show ?thesis
      by (simp add: createChartFromRemote_download_def do_DownloadTo_def)
  next
    case (Inr chartArchive)
    let ?s1 = "called (Call_DownloadTo (opts_Chart opts) (opts_Version opts) destDir) w s"
    obtain tr where "calls (snd (createChartFromDisk env destDir chartArchive ?s1)) =
        calls ?s1 @ Call_Load chartArchive # tr"
      using createChartFromDisk_calls by blast
    with Pair Inr show ?thesis
      by (simp add: createChartFromRemote_download_def do_DownloadTo_def)
  qed
qed

lemma createChartFromRemote_calls:
  "\<exists>c tr. calls (snd (createChartFromRemote env destDir opts s)) = calls s @ c # tr \<and> remote_call c"
proof (cases "opts_Repo opts = ''''")
  case True
  then show ?thesis
    using createChartFromRemote_download_calls [of env destDir opts s]
    by (auto simp: createChartFromRemote_def)
next
  case False
  obtain res w where find: "repo_FindChartInRepoURL env (opts_Repo opts) (opts_Chart opts)
      (opts_Version opts) (outside s) = (res, w)"
    by (cases "repo_FindChartInRepoURL env (opts_Repo opts) (opts_Chart opts)
      (opts_Version opts) (outside s)")
  let ?c = "Call_FindChartInRepoURL (opts_Repo opts) (opts_Chart opts) (opts_Version opts)"
  show ?thesis
  proof (cases res)
    case (Inl err)
    with False find have "calls (snd (createChartFromRemote env destDir opts s)) = calls s @ ?c # []"
      by (simp add: createChartFromRemote_def do_FindChartInRepoURL_def)
    then show ?thesis by (intro exI [of _ ?c] exI [of _ "[]"]) simp
  next
    case (Inr chartURL)
    obtain tr where "calls (snd (createChartFromRemote_download env destDir
        (opts\<lparr>opts_Chart := chartURL\<rparr>) (called ?c w s))) =
        calls (called ?c w s) @ Call_DownloadTo chartURL (opts_Version opts) destDir # tr"
      using createChartFromRemote_download_calls
        [of env destDir "opts\<lparr>opts_Chart := chartURL\<rparr>" "called ?c w s"]
      by auto
    with False find Inr have "calls (snd (createChartFromRemote env destDir opts s)) =
        calls s @ ?c # Call_DownloadTo chartURL (opts_Version opts) destDir # tr"
      by (simp add: createChartFromRemote_def do_FindChartInRepoURL_def)
    then show ?thesis by (intro exI [of _ ?c] exI) simp
  qed
qed

lemma fetchChart_calls_local:
  assumes "os_Stat env (opts_Chart opts) (outside s) = None"
  shows "\<exists>tr. calls (snd (fetchChart env cfg destDir opts s)) =
            calls s @ Call_Stat (opts_Chart opts) # Call_Load (opts_Chart opts) # tr \<and>
            \<not> list_ex remote_call tr"
proof -
  let ?s1 = "called (Call_Stat (opts_Chart opts)) (outside s) s"
  obtain tr where tr: "calls (snd (createChartFromDisk env destDir (opts_Chart opts) ?s1)) =
      calls ?s1 @ Call_Load (opts_Chart opts) # tr" "\<not> list_ex remote_call tr"
    using createChartFromDisk_calls by blast
  have "calls (snd (fetchChart env cfg destDir opts s)) =
      calls (snd (createChartFromDisk env destDir (opts_Chart opts) ?s1))"
    using assms
    by (auto simp: fetchChart_def do_Stat_def Let_def split: prod.splits sum.splits)
  with tr show ?thesis by simp
qed

lemma fetchChart_calls_remote:
  assumes "os_Stat env (opts_Chart opts) (outside s) \<noteq> None"
  shows "\<exists>c tr. calls (snd (fetchChart env cfg destDir opts s)) =
            calls s @ Call_Stat (opts_Chart opts) # c # tr \<and> remote_call c"
proof -
  let ?s1 = "called (Call_Stat (opts_Chart opts)) (outside s) s"
  obtain c tr where tr: "calls (snd (createChartFromRemote env destDir opts ?s1)) =
      calls ?s1 @ c # tr" "remote_call c"
    using createChartFromRemote_calls by blast
  have "calls (snd (fetchChart env cfg destDir opts s)) =
      calls (snd (createChartFromRemote env destDir opts ?s1))"
    using assms
    by (auto simp: fetchChart_def do_Stat_def Let_def split: prod.splits sum.splits)
  with tr show ?thesis by simp
qed

lemma fetchChart_local_first:
  "(os_Stat env (opts_Chart opts) (outside s) = None \<longrightarrow>
      take 2 (new_calls s (snd (fetchChart env cfg destDir opts s))) =
        [Call_Stat (opts_Chart opts), Call_Load (opts_Chart opts)]) \<and>
   (list_ex remote_call (new_calls s (snd (fetchChart env cfg destDir opts s))) \<longleftrightarrow>
      os_Stat env (opts_Chart opts) (outside s) \<noteq> None)"
proof (cases "os_Stat env (opts_Chart opts) (outside s) = None")
  case True
  from fetchChart_calls_local [OF True, of cfg destDir]
  obtain tr where "calls (snd (fetchChart env cfg destDir opts s)) =
      calls s @ Call_Stat (opts_Chart opts) # Call_Load (opts_Chart opts) # tr"
      "\<not> list_ex remote_call tr" by blast
  with True show ?thesis by simp
next
  case False
  from fetchChart_calls_remote [OF False, of cfg destDir]
  obtain c tr where "calls (snd (fetchChart env cfg destDir opts s)) =
      calls s @ Call_Stat (opts_Chart opts) # c # tr" "remote_call c" by blast
  with False show ?thesis by auto
qed

lemma CreateChart_resolve_calls:
  "\<exists>tr. calls (snd (CreateChart_resolve env tmpDir r c s)) = calls s @ tr \<and> \<not> list_ex fetch_call tr"
  by (auto simp: CreateChart_resolve_def fetchChartDependencies_def do_defs Let_def
           split: prod.splits sum.splits option.splits)

lemma CreateChart_body_fetch_calls:
  assumes "opts_Chart opts \<noteq> ''''"
  shows "\<exists>tr. calls (snd (CreateChart_body env cfg opts tmpDir s)) =
          calls (snd (fetchChart env cfg tmpDir opts s)) @ tr \<and> \<not> list_ex fetch_call tr"
proof (cases "fetchChart env cfg tmpDir opts s")
  case (Pair res s1)
  show ?thesis
  proof (cases res)
    case (Inl err)
    with Pair assms show ?thesis by (simp add: CreateChart_body_def)
  next
    case (Inr rc)
    obtain r c where rc: "rc = (r, c)" by (cases rc)
    obtain tr2 where "calls (snd (CreateChart_resolve env tmpDir r c s1)) = calls s1 @ tr2"
        "\<not> list_ex fetch_call tr2"
      using CreateChart_resolve_calls by blast
    with Pair Inr rc assms show ?thesis by (simp add: CreateChart_body_def)
  qed
qed

lemma CreateChart_remote_iff:
  assumes tmp: "ioutil_TempDir env '''' ''osdk-helm-chart'' (outside s) = (Inr tmpDir, w1)"
    and ne: "opts_Chart opts \<noteq> ''''"
  shows "list_ex remote_call (new_calls s (snd (CreateChart env cfg opts s))) \<longleftrightarrow>
           os_Stat env (opts_Chart opts) w1 \<noteq> None"
proof -
  let ?s1 = "called (Call_TempDir '''' ''osdk-helm-chart'') w1 s"
  obtain tr2 where tr2: "calls (snd (CreateChart_body env cfg opts tmpDir ?s1)) =
      calls (snd (fetchChart env cfg tmpDir opts ?s1)) @ tr2" "\<not> list_ex fetch_call tr2"
    using CreateChart_body_fetch_calls [OF ne, of env cfg tmpDir ?s1] by blast
  have nr: "\<not> list_ex remote_call tr2"
    using tr2(2) by (rule list_ex_remote_fetch)
  show ?thesis
  proof (cases "os_Stat env (opts_Chart opts) w1 = None")
    case True
    then have "os_Stat env (opts_Chart opts) (outside ?s1) = None" by simp
    from fetchChart_calls_local [OF this, of cfg tmpDir]
    obtain tr where "calls (snd (fetchChart env cfg tmpDir opts ?s1)) =
        calls ?s1 @ Call_Stat (opts_Chart opts) # Call_Load (opts_Chart opts) # tr"
        "\<not> list_ex remote_call tr" by blast
    with True tr2 nr show ?thesis
      by (simp add: CreateChart_TempDir_succeeds [OF tmp])
  next
    case False
    then have "os_Stat env (opts_Chart opts) (outside ?s1) \<noteq> None" by simp
    from fetchChart_calls_remote [OF this, of cfg tmpDir]
    obtain c tr where "calls (snd (fetchChart env cfg tmpDir opts ?s1)) =
        calls ?s1 @ Call_Stat (opts_Chart opts) # c # tr" "remote_call c" by blast
    with False tr2 nr show ?thesis
      by (auto simp: CreateChart_TempDir_succeeds [OF tmp])
  qed
qed

text \<open>
  Claim C2.  \<open>fetchChart\<close> first asks \<open>os.Stat\<close> about the chart reference.  When the
  path exists, the next call loads the chart from that path, and no call goes to a
  repository, whatever \<open>opts.Repo\<close> is and whatever a repository would answer for the
  same string.  A call goes to a repository (\<open>FindChartInRepoURL\<close> or \<open>DownloadTo\<close>)
  exactly when \<open>os.Stat\<close> fails.  The same holds for a whole run of \<open>CreateChart\<close> with
  a non-empty reference, where \<open>os.Stat\<close> sees the disk as the creation of the temporary
  directory left it.
\<close>

theorem fetchChart_local_wins:
  "(os_Stat env (opts_Chart opts) (outside s) = None \<longrightarrow>
      take 2 (new_calls s (snd (fetchChart env cfg destDir opts s))) =
        [Call_Stat (opts_Chart opts), Call_Load (opts_Chart opts)]) \<and>
   (list_ex remote_call (new_calls s (snd (fetchChart env cfg destDir opts s))) \<longleftrightarrow>
      os_Stat env (opts_Chart opts) (outside s) \<noteq> None) \<and>
   (opts_Chart opts \<noteq> '''' \<and>
    ioutil_TempDir env '''' ''osdk-helm-chart'' (outside s) = (Inr tmpDir, w1) \<longrightarrow>
      (list_ex remote_call (new_calls s (snd (CreateChart env cfg opts s))) \<longleftrightarrow>
         os_Stat env (opts_Chart opts) w1 \<noteq> None))"
  using fetchChart_local_first [of env opts s cfg destDir]
    CreateChart_remote_iff [of env s tmpDir w1 opts cfg]
  by blast

theorem fetchChart_local_wins_witness:
  "os_Stat sim ''redis'' (outside (start (disk0\<lparr>charts := [(''redis'', my_app)]\<rparr>))) = None \<and>
   new_calls (start (disk0\<lparr>charts := [(''redis'', my_app)]\<rparr>))
     (snd (fetchChart sim config0 ''/tmp''
        (options0\<lparr>opts_Chart := ''redis'', opts_Repo := ''https://charts.example.com''\<rparr>)
        (start (disk0\<lparr>charts := [(''redis'', my_app)]\<rparr>)))) =
     [Call_Stat ''redis'', Call_Load ''redis'', Call_SaveDir ''my-app'' ''/tmp''] \<and>
   \<not> list_ex remote_call (new_calls (start (disk0\<lparr>charts := [(''redis'', my_app)]\<rparr>))
     (snd (CreateChart sim config0
        (options0\<lparr>opts_Chart := ''redis'', opts_Repo := ''https://charts.example.com''\<rparr>)
        (start (disk0\<lparr>charts := [(''redis'', my_app)]\<rparr>)))))"
  using fetchChart_local_wins
    [of sim "options0\<lparr>opts_Chart := ''redis'', opts_Repo := ''https://charts.example.com''\<rparr>"
        "start (disk0\<lparr>charts := [(''redis'', my_app)]\<rparr>)" config0 "''/tmp''"
        "''/tmp/osdk-helm-chart042''"
        "disk0\<lparr>charts := [(''redis'', my_app)], dirs := [''/tmp/osdk-helm-chart042'', ''/tmp'']\<rparr>"]
  by (simp add: run_defs)

subsection \<open>The empty reference\<close>

lemma scaffoldChart_calls:
  "\<exists>tr. calls (snd (scaffoldChart env cfg destDir opts s)) =
          calls s @ Call_Create (strings_ToLower env (gvk_Kind (opts_GVK opts))) destDir # tr \<and>
        \<not> list_ex fetch_call tr"
  by (auto simp: scaffoldChart_def do_defs split: prod.splits sum.splits)

lemma CreateChart_body_scaffold_calls:
  assumes "opts_Chart opts = ''''"
  shows "\<exists>tr. calls (snd (CreateChart_body env cfg opts tmpDir s)) =
          calls s @ Call_Create (strings_ToLower env (gvk_Kind (opts_GVK opts))) tmpDir # tr \<and>
        \<not> list_ex fetch_call tr"
proof (cases "scaffoldChart env cfg tmpDir opts s")
  case (Pair res s1)
  obtain tr where tr: "calls s1 =
      calls s @ Call_Create (strings_ToLower env (gvk_Kind (opts_GVK opts))) tmpDir # tr"
      "\<not> list_ex fetch_call tr"
    using scaffoldChart_calls [of env cfg tmpDir opts s] Pair by auto
  show ?thesis
  proof (cases res)
    case (Inl err)
    with Pair tr assms show ?thesis by (simp add: CreateChart_body_def)
  next
    case (Inr rc)
    obtain r c where rc: "rc = (r, c)" by (cases rc)
    obtain tr2 where "calls (snd (CreateChart_resolve env tmpDir r c s1)) = calls s1 @ tr2"
        "\<not> list_ex fetch_call tr2"
      using CreateChart_resolve_calls by blast
    with Pair Inr rc tr assms show ?thesis by (simp add: CreateChart_body_def)
  qed
qed

lemma CreateChart_scaffold_calls:
  assumes "opts_Chart opts = ''''"
  shows "\<not> list_ex fetch_call (new_calls s (snd (CreateChart env cfg opts s)))"
    and "ioutil_TempDir env '''' ''osdk-helm-chart'' (outside s) = (Inr tmpDir, w1) \<Longrightarrow>
         take 2 (new_calls s (snd (CreateChart env cfg opts s))) =
           [Call_TempDir '''' ''osdk-helm-chart'',
            Call_Create (strings_ToLower env (gvk_Kind (opts_GVK opts))) tmpDir]"
proof -
  obtain res w1' where t: "ioutil_TempDir env '''' ''osdk-helm-chart'' (outside s) = (res, w1')"
    by (cases "ioutil_TempDir env '''' ''osdk-helm-chart'' (outside s)")
  show "\<not> list_ex fetch_call (new_calls s (snd (CreateChart env cfg opts s)))"
  proof (cases res)
    case (Inl err)
    with t show ?thesis by (simp add: CreateChart_TempDir_fails)
  next
    case (Inr tmp)
    let ?s1 = "called (Call_TempDir '''' ''osdk-helm-chart'') w1' s"
    obtain tr where "calls (snd (CreateChart_body env cfg opts tmp ?s1)) =
        calls ?s1 @ Call_Create (strings_ToLower env (gvk_Kind (opts_GVK opts))) tmp # tr"
        "\<not> list_ex fetch_call tr"
      using CreateChart_body_scaffold_calls [OF assms, of env cfg tmp ?s1] by blast
    with t Inr show ?thesis by (simp add: CreateChart_TempDir_succeeds)
  qed
next
  assume tmp: "ioutil_TempDir env '''' ''osdk-helm-chart'' (outside s) = (Inr tmpDir, w1)"
  let ?s1 = "called (Call_TempDir '''' ''osdk-helm-chart'') w1 s"
  obtain tr where "calls (snd (CreateChart_body env cfg opts tmpDir ?s1)) =
      calls ?s1 @ Call_Create (strings_ToLower env (gvk_Kind (opts_GVK opts))) tmpDir # tr"
    using CreateChart_body_scaffold_calls [OF assms, of env cfg tmpDir ?s1] by blast
  then show "take 2 (new_calls s (snd (CreateChart env cfg opts s))) =
           [Call_TempDir '''' ''osdk-helm-chart'',
            Call_Create (strings_ToLower env (gvk_Kind (opts_GVK opts))) tmpDir]"
    by (simp add: CreateChart_TempDir_succeeds [OF tmp])
qed

lemma CreateChart_scaffold_ignores:
  assumes "opts_Chart opts = ''''"
  shows "CreateChart env cfg (opts\<lparr>opts_Repo := repo, opts_Version := version\<rparr>) s =
         CreateChart env cfg opts s"
proof -
  have "NewResource env (opts\<lparr>opts_Repo := repo, opts_Version := version\<rparr>) cfg =
        NewResource env opts cfg"
    by (simp add: NewResource_def)
  then have "scaffoldChart env cfg tmpDir (opts\<lparr>opts_Repo := repo, opts_Version := version\<rparr>) s1 =
        scaffoldChart env cfg tmpDir opts s1" for tmpDir s1
    by (simp add: scaffoldChart_def split: prod.splits sum.splits)
  then have "CreateChart_body env cfg (opts\<lparr>opts_Repo := repo, opts_Version := version\<rparr>) tmpDir s1 =
        CreateChart_body env cfg opts tmpDir s1" for tmpDir s1
    using assms by (simp add: CreateChart_body_def)
  then show ?thesis
    by (simp add: CreateChart_def split: prod.splits sum.splits)
qed

lemma scaffoldChart_name:
  assumes "scaffoldChart env cfg destDir opts s = (Inr (r, c), s1)" and "Create_names_chart env"
  shows "Name c = strings_ToLower env (gvk_Kind (opts_GVK opts))"
    and "loader_Load env (filepath_Join env destDir (strings_ToLower env (gvk_Kind (opts_GVK opts))))
           (outside s1) = Inr c2 \<Longrightarrow>
         Name c2 = strings_ToLower env (gvk_Kind (opts_GVK opts))"
proof -
  let ?name = "strings_ToLower env (gvk_Kind (opts_GVK opts))"
  from assms(1) obtain p where
    create: "chartutil_Create env ?name destDir (outside s) = (Inr p, outside s1)" and
    load: "loader_Load env p (outside s1) = Inr c"
    by (auto simp: scaffoldChart_def do_defs split: prod.splits sum.splits)
  from assms(2) create load show "Name c = ?name"
    unfolding Create_names_chart_def by blast
  assume "loader_Load env (filepath_Join env destDir ?name) (outside s1) = Inr c2"
  with assms(2) create show "Name c2 = ?name"
    unfolding Create_names_chart_def by blast
qed

lemma CreateChart_resolve_success:
  assumes "CreateChart_resolve env tmpDir r c s = ((r', Some c', err), s')"
  obtains out w where
    "downloader_Build env (filepath_Join env tmpDir (Name c)) (outside s) = ((None, out), w)"
    "loader_Load env (filepath_Join env tmpDir (Name c)) w = Inr c'"
  using assms
  by (auto simp: CreateChart_resolve_def fetchChartDependencies_def do_defs Let_def
           split: prod.splits sum.splits option.splits)

lemma CreateChart_resolve_name:
  assumes "CreateChart_resolve env tmpDir r c s = ((r', Some c', err), s')"
    and "Build_keeps_name env"
  obtains c0 where "loader_Load env (filepath_Join env tmpDir (Name c)) (outside s) = Inr c0"
    and "Name c0 = Name c'"
proof -
  from assms(1) obtain out w where
    "downloader_Build env (filepath_Join env tmpDir (Name c)) (outside s) = ((None, out), w)"
    "loader_Load env (filepath_Join env tmpDir (Name c)) w = Inr c'"
    by (rule CreateChart_resolve_success)
  with assms(2) that show thesis
    unfolding Build_keeps_name_def by blast
qed

lemma CreateChart_scaffold_name:
  assumes empty: "opts_Chart opts = ''''"
    and lib: "Create_names_chart env" "Build_keeps_name env"
    and res: "fst (CreateChart env cfg opts s) = (r, Some c', err)"
  shows "Name c' = strings_ToLower env (gvk_Kind (opts_GVK opts))"
proof -
  from res obtain tmpDir w1 s2 where
    body: "CreateChart_body env cfg opts tmpDir (called (Call_TempDir '''' ''osdk-helm-chart'') w1 s) =
       ((r, Some c', err), s2)"
    by (rule CreateChart_chart_cases)
  let ?s1 = "called (Call_TempDir '''' ''osdk-helm-chart'') w1 s"
  from body empty obtain r0 c0 s1' where
    sc: "scaffoldChart env cfg tmpDir opts ?s1 = (Inr (r0, c0), s1')" and
    rs: "CreateChart_resolve env tmpDir r0 c0 s1' = ((r, Some c', err), s2)"
    by (auto simp: CreateChart_body_def split: prod.splits sum.splits)
  from scaffoldChart_name(1) [OF sc lib(1)]
  have n: "Name c0 = strings_ToLower env (gvk_Kind (opts_GVK opts))" .
  from CreateChart_resolve_name [OF rs lib(2)] obtain c2 where
    l: "loader_Load env (filepath_Join env tmpDir (Name c0)) (outside s1') = Inr c2" and
    same: "Name c2 = Name c'"
    by blast
  from scaffoldChart_name(2) [OF sc lib(1)] l n
  have "Name c2 = strings_ToLower env (gvk_Kind (opts_GVK opts))" by simp
  with same show ?thesis by simp
qed

lemma scaffoldChart_run:
  assumes "chartutil_Create env (strings_ToLower env (gvk_Kind (opts_GVK opts))) destDir (outside s) =
             (Inr chartPath, w)"
    and "loader_Load env chartPath w = Inr c"
  shows "fst (scaffoldChart env cfg destDir opts s) = Inr (NewResource env opts cfg, c)"
    and "outside (snd (scaffoldChart env cfg destDir opts s)) = w"
  using assms by (simp_all add: scaffoldChart_def do_Create_def do_Load_def)

lemma CreateChart_scaffold_run:
  assumes empty: "opts_Chart opts = ''''"
    and tmp: "ioutil_TempDir env '''' ''osdk-helm-chart'' (outside s) = (Inr tmpDir, w1)"
    and create: "chartutil_Create env (strings_ToLower env (gvk_Kind (opts_GVK opts))) tmpDir w1 =
                   (Inr chartPath, w2)"
    and load: "loader_Load env chartPath w2 = Inr c0"
    and build: "downloader_Build env (filepath_Join env tmpDir (Name c0)) w2 = ((None, out), w3)"
    and reload: "loader_Load env (filepath_Join env tmpDir (Name c0)) w3 = Inr c1"
  shows "fst (CreateChart env cfg opts s) = (Some (NewResource env opts cfg), Some c1, None)"
proof -
  let ?s1 = "called (Call_TempDir '''' ''osdk-helm-chart'') w1 s"
  have create': "chartutil_Create env (strings_ToLower env (gvk_Kind (opts_GVK opts))) tmpDir
      (outside ?s1) = (Inr chartPath, w2)"
    using create by simp
  have acq: "(if opts_Chart opts = '''' then scaffoldChart env cfg tmpDir opts ?s1
              else fetchChart env cfg tmpDir opts ?s1) =
      (Inr (NewResource env opts cfg, c0), snd (scaffoldChart env cfg tmpDir opts ?s1))"
    using empty scaffoldChart_run(1) [OF create' load, of cfg]
    by (simp add: prod_eq_iff)
  have build': "downloader_Build env (filepath_Join env tmpDir (Name c0))
      (outside (snd (scaffoldChart env cfg tmpDir opts ?s1))) = ((None, out), w3)"
    using build scaffoldChart_run(2) [OF create' load, of cfg] by simp
  from CreateChart_acquired [OF tmp acq] CreateChart_resolve_run [OF build'] reload
  show ?thesis by simp
qed

lemma sim_scaffold_calls:
  "chartutil_Create sim (strings_ToLower sim ''MemCached'') ''/tmp/osdk-helm-chart042''
     (disk0\<lparr>dirs := [''/tmp/osdk-helm-chart042'', ''/tmp'']\<rparr>) =
     (Inr ''/tmp/osdk-helm-chart042/memcached'',
      disk0\<lparr>dirs := [''/tmp/osdk-helm-chart042'', ''/tmp''],
            charts := (''/tmp/osdk-helm-chart042/memcached'', sim_default_chart ''memcached'')
                        # charts disk0\<rparr>)"
  "loader_Load sim ''/tmp/osdk-helm-chart042/memcached''
     (disk0\<lparr>dirs := [''/tmp/osdk-helm-chart042'', ''/tmp''],
            charts := (''/tmp/osdk-helm-chart042/memcached'', sim_default_chart ''memcached'')
                        # charts disk0\<rparr>) = Inr (sim_default_chart ''memcached'')"
  "downloader_Build sim
     (filepath_Join sim ''/tmp/osdk-helm-chart042'' (Name (sim_default_chart ''memcached'')))
     (disk0\<lparr>dirs := [''/tmp/osdk-helm-chart042'', ''/tmp''],
            charts := (''/tmp/osdk-helm-chart042/memcached'', sim_default_chart ''memcached'')
                        # charts disk0\<rparr>) =
     ((None, ''Saving charts''),
      disk0\<lparr>dirs := [''/tmp/osdk-helm-chart042'', ''/tmp''],
            charts := (''/tmp/osdk-helm-chart042/memcached'', sim_default_chart ''memcached'')
                        # charts disk0\<rparr>)"
  "loader_Load sim
     (filepath_Join sim ''/tmp/osdk-helm-chart042'' (Name (sim_default_chart ''memcached'')))
     (disk0\<lparr>dirs := [''/tmp/osdk-helm-chart042'', ''/tmp''],
            charts := (''/tmp/osdk-helm-chart042/memcached'', sim_default_chart ''memcached'')
                        # charts disk0\<rparr>) = Inr (sim_default_chart ''memcached'')"
  by (simp_all add: sim_defs Name_def)

text \<open>
  Claim C3.  With an empty chart reference \<open>CreateChart\<close> makes none of the calls of
  the fetch path (\<open>os.Stat\<close>, \<open>SaveDir\<close>, \<open>FindChartInRepoURL\<close>, \<open>DownloadTo\<close>): once the
  temporary directory exists, its next call is \<open>chartutil.Create\<close> with the lower-cased
  kind as the name of the chart.  When \<open>Create\<close>, the load of the created chart,
  \<open>Build\<close> and the reload succeed, \<open>CreateChart\<close> returns the resource built from the
  options as they are and the reloaded chart; as Helm creates the chart under the
  given name and \<open>Build\<close> does not rename it, that chart, and every chart that is
  returned, has the lower-cased kind as its name.  \<open>opts.Repo\<close> and \<open>opts.Version\<close> are
  not read: with any other values for both, the results and the final state are the
  same.
\<close>

theorem CreateChart_empty_reference:
  assumes "opts_Chart opts = ''''"
  shows "\<not> list_ex fetch_call (new_calls s (snd (CreateChart env cfg opts s))) \<and>
         (ioutil_TempDir env '''' ''osdk-helm-chart'' (outside s) = (Inr tmpDir, w1) \<longrightarrow>
            take 2 (new_calls s (snd (CreateChart env cfg opts s))) =
              [Call_TempDir '''' ''osdk-helm-chart'',
               Call_Create (strings_ToLower env (gvk_Kind (opts_GVK opts))) tmpDir]) \<and>
         (ioutil_TempDir env '''' ''osdk-helm-chart'' (outside s) = (Inr tmpDir, w1) \<and>
          chartutil_Create env (strings_ToLower env (gvk_Kind (opts_GVK opts))) tmpDir w1 =
            (Inr chartPath, w2) \<and>
          loader_Load env chartPath w2 = Inr c0 \<and>
          downloader_Build env (filepath_Join env tmpDir (Name c0)) w2 = ((None, out), w3) \<and>
          loader_Load env (filepath_Join env tmpDir (Name c0)) w3 = Inr c1 \<longrightarrow>
            fst (CreateChart env cfg opts s) = (Some (NewResource env opts cfg), Some c1, None) \<and>
            (Create_names_chart env \<and> Build_keeps_name env \<longrightarrow>
               Name c1 = strings_ToLower env (gvk_Kind (opts_GVK opts)))) \<and>
         (Create_names_chart env \<and> Build_keeps_name env \<and>
          fst (CreateChart env cfg opts s) = (r, Some c, err) \<longrightarrow>
            Name c = strings_ToLower env (gvk_Kind (opts_GVK opts))) \<and>
         CreateChart env cfg (opts\<lparr>opts_Repo := repo, opts_Version := version\<rparr>) s =
           CreateChart env cfg opts s"
proof -
  have run: "fst (CreateChart env cfg opts s) = (Some (NewResource env opts cfg), Some c1, None)"
    if "ioutil_TempDir env '''' ''osdk-helm-chart'' (outside s) = (Inr tmpDir, w1)"
       "chartutil_Create env (strings_ToLower env (gvk_Kind (opts_GVK opts))) tmpDir w1 =
            (Inr chartPath, w2)"
       "loader_Load env chartPath w2 = Inr c0"
       "downloader_Build env (filepath_Join env tmpDir (Name c0)) w2 = ((None, out), w3)"
       "loader_Load env (filepath_Join env tmpDir (Name c0)) w3 = Inr c1"
    using CreateChart_scaffold_run [OF assms that] .
  have name: "Name c = strings_ToLower env (gvk_Kind (opts_GVK opts))"
    if "Create_names_chart env" "Build_keeps_name env"
       "fst (CreateChart env cfg opts s) = (r, Some c, err)" for r c err
    using CreateChart_scaffold_name [OF assms that] .
  from run name [of _ c1 None] name [of r c err]
    CreateChart_scaffold_calls(1) [OF assms, where s = s and env = env and cfg = cfg]
    CreateChart_scaffold_calls(2) [OF assms, where s = s and env = env and cfg = cfg
      and tmpDir = tmpDir and ?w1.0 = w1]
    CreateChart_scaffold_ignores [OF assms, where env = env and cfg = cfg and repo = repo
      and version = version and s = s]
  show ?thesis by blast
qed

theorem CreateChart_empty_reference_witness:
  "opts_Chart (options0\<lparr>opts_GVK := \<lparr>gvk_Group = ''cache'', gvk_Version = ''v1'', gvk_Kind = ''MemCached''\<rparr>\<rparr>) = '''' \<and>
   Create_names_chart sim \<and> Build_keeps_name sim \<and>
   fst (CreateChart sim config0
     (options0\<lparr>opts_GVK := \<lparr>gvk_Group = ''cache'', gvk_Version = ''v1'', gvk_Kind = ''MemCached''\<rparr>\<rparr>)
     (start disk0)) =
     (Some \<lparr>r_Group = ''cache'', r_Domain = ''example.com'', r_Version = ''v1'',
            r_Kind = ''MemCached'', r_Plural = ''memcacheds'', r_Path = ''''\<rparr>,
      Some \<lparr>Metadata_Name = ''memcached'', Metadata_Dependencies = [],
            Templates = [(''templates/deployment.yaml'', ''kind: Deployment''),
                         (''templates/service.yaml'', ''kind: Service'')]\<rparr>, None) \<and>
   strings_ToLower sim ''MemCached'' = ''memcached'' \<and>
   take 2 (new_calls (start disk0) (snd (CreateChart sim config0
     (options0\<lparr>opts_GVK := \<lparr>gvk_Group = ''cache'', gvk_Version = ''v1'', gvk_Kind = ''MemCached''\<rparr>\<rparr>)
     (start disk0)))) =
     [Call_TempDir '''' ''osdk-helm-chart'', Call_Create ''memcached'' ''/tmp/osdk-helm-chart042''] \<and>
   CreateChart sim config0
     (options0\<lparr>opts_GVK := \<lparr>gvk_Group = ''cache'', gvk_Version = ''v1'', gvk_Kind = ''MemCached''\<rparr>,
               opts_Repo := ''https://charts.example.com'', opts_Version := ''1.0''\<rparr>) (start disk0) =
   CreateChart sim config0
     (options0\<lparr>opts_GVK := \<lparr>gvk_Group = ''cache'', gvk_Version = ''v1'', gvk_Kind = ''MemCached''\<rparr>\<rparr>)
     (start disk0)"
proof -
  let ?opts = "options0\<lparr>opts_GVK := \<lparr>gvk_Group = ''cache'', gvk_Version = ''v1'', gvk_Kind = ''MemCached''\<rparr>\<rparr>"
  have empty: "opts_Chart ?opts = ''''" by (simp add: options0_def)
  have kind: "gvk_Kind (opts_GVK ?opts) = ''MemCached''" by simp
  have lower: "strings_ToLower sim ''MemCached'' = ''memcached''"
    by (simp add: sim_def sim_lower_def)
  note inst = CreateChart_empty_reference [OF empty, where env = sim and cfg = config0
      and s = "start disk0" and tmpDir = "''/tmp/osdk-helm-chart042''"
      and ?w1.0 = "disk0\<lparr>dirs := [''/tmp/osdk-helm-chart042'', ''/tmp'']\<rparr>"
      and chartPath = "''/tmp/osdk-helm-chart042/memcached''"
      and ?w2.0 = "disk0\<lparr>dirs := [''/tmp/osdk-helm-chart042'', ''/tmp''],
            charts := (''/tmp/osdk-helm-chart042/memcached'', sim_default_chart ''memcached'')
                        # charts disk0\<rparr>"
      and ?c0.0 = "sim_default_chart ''memcached''" and out = "''Saving charts''"
      and ?w3.0 = "disk0\<lparr>dirs := [''/tmp/osdk-helm-chart042'', ''/tmp''],
            charts := (''/tmp/osdk-helm-chart042/memcached'', sim_default_chart ''memcached'')
                        # charts disk0\<rparr>"
      and ?c1.0 = "sim_default_chart ''memcached''"
      and repo = "''https://charts.example.com''" and version = "''1.0''", unfolded kind]
  from inst sim_TempDir_disk0 sim_scaffold_calls
  have run: "fst (CreateChart sim config0 ?opts (start disk0)) =
      (Some (NewResource sim ?opts config0), Some (sim_default_chart ''memcached''), None)"
    and calls: "take 2 (new_calls (start disk0) (snd (CreateChart sim config0 ?opts (start disk0)))) =
      [Call_TempDir '''' ''osdk-helm-chart'',
       Call_Create (strings_ToLower sim ''MemCached'') ''/tmp/osdk-helm-chart042'']"
    and same: "CreateChart sim config0
        (?opts\<lparr>opts_Repo := ''https://charts.example.com'', opts_Version := ''1.0''\<rparr>) (start disk0) =
      CreateChart sim config0 ?opts (start disk0)"
    by blast+
  have res: "NewResource sim ?opts config0 =
      \<lparr>r_Group = ''cache'', r_Domain = ''example.com'', r_Version = ''v1'',
            r_Kind = ''MemCached'', r_Plural = ''memcacheds'', r_Path = ''''\<rparr>"
    by (simp add: NewResource_def sim_defs)
  from empty sim_Create_names_chart sim_Build_keeps_name run calls same lower res
  show ?thesis by (simp add: sim_default_chart_def)
qed

subsection \<open>A local chart without dependencies comes back unchanged\<close>

lemma CreateChart_resolve_unchanged:
  assumes "CreateChart_resolve env tmpDir r c s = ((r', Some c', err), s')"
    and "Build_without_dependencies env"
    and "loader_Load env (filepath_Join env tmpDir (Name c)) (outside s) = Inr c0"
    and "Metadata_Dependencies c0 = []"
  shows "c' = c0"
proof -
  from assms(1) obtain out w where
    b: "downloader_Build env (filepath_Join env tmpDir (Name c)) (outside s) = ((None, out), w)"
    and l: "loader_Load env (filepath_Join env tmpDir (Name c)) w = Inr c'"
    by (rule CreateChart_resolve_success)
  from assms(2) b assms(3,4)
  have "loader_Load env (filepath_Join env tmpDir (Name c)) w = Inr c0"
    unfolding Build_without_dependencies_def by blast
  with l show ?thesis by simp
qed

lemma createChartFromDisk_saved:
  assumes "createChartFromDisk env destDir source s = (Inr c, s1)" and "SaveDir_then_Load env"
  shows "loader_Load env source (outside s) = Inr c \<and>
         (\<exists>c2. loader_Load env (filepath_Join env destDir (Name c)) (outside s1) = Inr c2 \<and>
               Name c2 = Name c \<and> Metadata_Dependencies c2 = Metadata_Dependencies c \<and>
               set (Templates c2) = set (Templates c))"
  using assms unfolding SaveDir_then_Load_def
  by (auto simp: createChartFromDisk_def do_defs split: prod.splits sum.splits option.splits)

lemma fetchChart_local_chart:
  assumes "fetchChart env cfg destDir opts s = (Inr (r, c), s1)"
    and "os_Stat env (opts_Chart opts) (outside s) = None"
  shows "createChartFromDisk env destDir (opts_Chart opts)
           (called (Call_Stat (opts_Chart opts)) (outside s) s) = (Inr c, s1)"
  using assms
  by (auto simp: fetchChart_def do_Stat_def Let_def split: prod.splits sum.splits)

text \<open>
  Claim C6.  Let the chart reference name an existing path from which Helm loads a
  chart \<open>c\<close> without declared dependencies.  \<open>CreateChart\<close> saves \<open>c\<close> into the temporary
  directory, resolves the dependencies of the copy and loads the copy again, from the
  path \<open>SaveDir\<close> wrote it to.  As \<open>SaveDir\<close> followed by \<open>Load\<close> keeps name, dependencies
  and templates, and \<open>Build\<close> leaves a chart without dependencies alone, the chart that
  is returned has the name and the set of templates of \<open>c\<close>.
\<close>

theorem CreateChart_local_round_trip:
  assumes tmp: "ioutil_TempDir env '''' ''osdk-helm-chart'' (outside s) = (Inr tmpDir, w1)"
    and ne: "opts_Chart opts \<noteq> ''''"
    and local: "os_Stat env (opts_Chart opts) w1 = None"
    and input: "loader_Load env (opts_Chart opts) w1 = Inr c"
    and nodeps: "Metadata_Dependencies c = []"
    and lib: "SaveDir_then_Load env" "Build_without_dependencies env"
    and res: "fst (CreateChart env cfg opts s) = (r, Some c', err)"
  shows "Name c' = Name c \<and> set (Templates c') = set (Templates c)"
proof -
  let ?s1 = "called (Call_TempDir '''' ''osdk-helm-chart'') w1 s"
  from res tmp obtain s2 where
    body: "CreateChart_body env cfg opts tmpDir ?s1 = ((r, Some c', err), s2)"
    by (cases "CreateChart_body env cfg opts tmpDir ?s1") (simp add: CreateChart_TempDir_succeeds)
  from body ne obtain r0 c0 s1' where
    fc: "fetchChart env cfg tmpDir opts ?s1 = (Inr (r0, c0), s1')" and
    rs: "CreateChart_resolve env tmpDir r0 c0 s1' = ((r, Some c', err), s2)"
    by (auto simp: CreateChart_body_def split: prod.splits sum.splits)
  have "os_Stat env (opts_Chart opts) (outside ?s1) = None"
    using local by simp
  from fetchChart_local_chart [OF fc this]
  have disk: "createChartFromDisk env tmpDir (opts_Chart opts)
      (called (Call_Stat (opts_Chart opts)) (outside ?s1) ?s1) = (Inr c0, s1')" .
  from createChartFromDisk_saved [OF disk lib(1)] input
  obtain c2 where c0: "c0 = c"
    and l: "loader_Load env (filepath_Join env tmpDir (Name c0)) (outside s1') = Inr c2"
    and same: "Name c2 = Name c0" "Metadata_Dependencies c2 = Metadata_Dependencies c0"
      "set (Templates c2) = set (Templates c0)"
    by auto
  from same nodeps c0 have "Metadata_Dependencies c2 = []" by simp
  from CreateChart_resolve_unchanged [OF rs lib(2) l this] same c0
  show ?thesis by simp
qed

theorem CreateChart_local_round_trip_witness:
  "os_Stat sim ''./local-chart'' (disk0\<lparr>dirs := [''/tmp/osdk-helm-chart042'', ''/tmp'']\<rparr>) = None \<and>
   loader_Load sim ''./local-chart'' (disk0\<lparr>dirs := [''/tmp/osdk-helm-chart042'', ''/tmp'']\<rparr>) = Inr my_app \<and>
   Metadata_Dependencies my_app = [] \<and>
   SaveDir_then_Load sim \<and> Build_without_dependencies sim \<and>
   (\<exists>r c'. fst (CreateChart sim config0 (options0\<lparr>opts_Chart := ''./local-chart''\<rparr>) (start disk0)) =
       (Some r, Some c', None) \<and>
     Name c' = ''my-app'' \<and> set (Templates c') = {(''templates/app.yaml'', ''kind: Deployment'')})"
proof -
  let ?w1 = "disk0\<lparr>dirs := [''/tmp/osdk-helm-chart042'', ''/tmp'']\<rparr>"
  let ?opts = "options0\<lparr>opts_Chart := ''./local-chart''\<rparr>"
  have ne: "opts_Chart ?opts \<noteq> ''''" by (simp add: options0_def)
  have local: "os_Stat sim (opts_Chart ?opts) ?w1 = None" by (simp add: sim_defs)
  have input: "loader_Load sim (opts_Chart ?opts) ?w1 = Inr my_app" by (simp add: sim_defs)
  have nodeps: "Metadata_Dependencies my_app = []" by (simp add: my_app_def)
  from CreateChart_local_round_trip [OF sim_TempDir_disk0 ne local input nodeps
      sim_SaveDir_then_Load sim_Build_without_dependencies sim_CreateChart_local]
  have "Name my_app = Name my_app \<and> set (Templates my_app) = set (Templates my_app)" .
  with local input nodeps sim_SaveDir_then_Load sim_Build_without_dependencies sim_CreateChart_local
  show ?thesis by (simp add: my_app_def Name_def options0_def)
qed

subsection \<open>All or nothing\<close>

lemma CreateChart_resolve_result:
  "(\<exists>c'. fst (CreateChart_resolve env tmpDir r c s) = (Some r, Some c', None)) \<or>
   (\<exists>cause. fst (CreateChart_resolve env tmpDir r c s) =
        (None, None, Some (Errorf ''failed to fetch chart dependencies: '' cause))) \<or>
   (\<exists>cause. fst (CreateChart_resolve env tmpDir r c s) =
        (None, None, Some (Errorf ''failed to load chart: '' cause)))"
  by (auto simp: CreateChart_resolve_def Let_def split: prod.splits sum.splits option.splits)

lemma CreateChart_body_result:
  "(\<exists>r c. fst (CreateChart_body env cfg opts tmpDir s) = (Some r, Some c, None)) \<or>
   (\<exists>ctx cause. ctx \<in> set stage_contexts \<and>
      fst (CreateChart_body env cfg opts tmpDir s) = (None, None, Some (Errorf ctx cause)))"
proof -
  have r: "(\<exists>r' c'. fst (CreateChart_resolve env tmpDir r c s1) = (Some r', Some c', None)) \<or>
   (\<exists>ctx cause. ctx \<in> set stage_contexts \<and>
      fst (CreateChart_resolve env tmpDir r c s1) = (None, None, Some (Errorf ctx cause)))" for r c s1
    using CreateChart_resolve_result [of env tmpDir r c s1]
    by (auto simp: stage_contexts_def)
  show ?thesis
  proof (cases "opts_Chart opts = ''''")
    case True
    show ?thesis
    proof (cases "scaffoldChart env cfg tmpDir opts s")
      case (Pair res s1)
      show ?thesis
      proof (cases res)
        case (Inl cause)
        with Pair True have "fst (CreateChart_body env cfg opts tmpDir s) =
            (None, None, Some (Errorf ''failed to scaffold default chart: '' cause))"
          by (simp add: CreateChart_body_def)
        then show ?thesis by (auto simp: stage_contexts_def)
      next
        case (Inr rc)
        with Pair True r [of "fst rc" "snd rc" s1] show ?thesis
          by (cases rc) (simp add: CreateChart_body_def)
      qed
    qed
  next
    case False
    show ?thesis
    proof (cases "fetchChart env cfg tmpDir opts s")
      case (Pair res s1)
      show ?thesis
      proof (cases res)
        case (Inl cause)
        with Pair False have "fst (CreateChart_body env cfg opts tmpDir s) =
            (None, None, Some (Errorf ''failed to fetch chart: '' cause))"
          by (simp add: CreateChart_body_def)
        then show ?thesis by (auto simp: stage_contexts_def)
      next
        case (Inr rc)
        with Pair False r [of "fst rc" "snd rc" s1] show ?thesis
          by (cases rc) (simp add: CreateChart_body_def)
      qed
    qed
  qed
qed

text \<open>
  Claim C5, amended.  Every invocation of \<open>CreateChart\<close> ends in one of three ways: it
  returns a resource and a chart with a \<open>nil\<close> error; or the temporary directory could
  not be created, and it returns \<open>nil\<close>, \<open>nil\<close> and the error of \<open>ioutil.TempDir\<close> as it
  is, with no context added; or one of the four stages failed, and it returns \<open>nil\<close>,
  \<open>nil\<close> and an error whose message is the context of a stage followed by the message
  of the cause.  No chart is ever returned together with an error.  Stage by stage,
  for the run of \<open>CreateChart\<close> itself: when \<open>ioutil.TempDir\<close> fails its error is the
  result; when the scaffold (empty reference) or the fetch (any other reference) fails,
  the result is the cause under the context of that stage; when the chart was acquired
  and \<open>Build\<close> fails on the chart's directory in the state the acquisition left, the
  result is the cause under the context of dependency resolution; when \<open>Build\<close>
  succeeds and the load of that directory in the state \<open>Build\<close> left fails, the result
  is the cause under the context of the reload; and when that load succeeds, the result
  is the resource of the acquisition and the chart loaded after dependency resolution.
\<close>

theorem CreateChart_all_or_nothing:
  "((\<exists>r c. fst (CreateChart env cfg opts s) = (Some r, Some c, None)) \<or>
    (\<exists>err. fst (CreateChart env cfg opts s) = (None, None, Some err) \<and>
           fst (ioutil_TempDir env '''' ''osdk-helm-chart'' (outside s)) = Inl err) \<or>
    (\<exists>ctx cause. ctx \<in> set stage_contexts \<and>
           fst (CreateChart env cfg opts s) = (None, None, Some (Errorf ctx cause)))) \<and>
   (ioutil_TempDir env '''' ''osdk-helm-chart'' (outside s) = (Inl err, w1) \<longrightarrow>
      fst (CreateChart env cfg opts s) = (None, None, Some err)) \<and>
   (ioutil_TempDir env '''' ''osdk-helm-chart'' (outside s) = (Inr tmpDir, w1) \<longrightarrow>
      ((if opts_Chart opts = ''''
        then scaffoldChart env cfg tmpDir opts (called (Call_TempDir '''' ''osdk-helm-chart'') w1 s)
        else fetchChart env cfg tmpDir opts (called (Call_TempDir '''' ''osdk-helm-chart'') w1 s)) =
         (Inl cause, s2) \<longrightarrow>
       fst (CreateChart env cfg opts s) =
         (None, None,
          Some (Errorf (if opts_Chart opts = '''' then ''failed to scaffold default chart: ''
                        else ''failed to fetch chart: '') cause))) \<and>
      ((if opts_Chart opts = ''''
        then scaffoldChart env cfg tmpDir opts (called (Call_TempDir '''' ''osdk-helm-chart'') w1 s)
        else fetchChart env cfg tmpDir opts (called (Call_TempDir '''' ''osdk-helm-chart'') w1 s)) =
         (Inr (r, c), s2) \<longrightarrow>
       (downloader_Build env (filepath_Join env tmpDir (Name c)) (outside s2) =
          ((Some cause, out), w3) \<longrightarrow>
        fst (CreateChart env cfg opts s) =
          (None, None, Some (Errorf ''failed to fetch chart dependencies: '' cause))) \<and>
       (downloader_Build env (filepath_Join env tmpDir (Name c)) (outside s2) = ((None, out), w3) \<and>
        loader_Load env (filepath_Join env tmpDir (Name c)) w3 = Inl cause \<longrightarrow>
        fst (CreateChart env cfg opts s) =
          (None, None, Some (Errorf ''failed to load chart: '' cause))) \<and>
       (downloader_Build env (filepath_Join env tmpDir (Name c)) (outside s2) = ((None, out), w3) \<and>
        loader_Load env (filepath_Join env tmpDir (Name c)) w3 = Inr c' \<longrightarrow>
        fst (CreateChart env cfg opts s) = (Some r, Some c', None))))"
proof -
  have shape: "(\<exists>r c. fst (CreateChart env cfg opts s) = (Some r, Some c, None)) \<or>
    (\<exists>err. fst (CreateChart env cfg opts s) = (None, None, Some err) \<and>
           fst (ioutil_TempDir env '''' ''osdk-helm-chart'' (outside s)) = Inl err) \<or>
    (\<exists>ctx cause. ctx \<in> set stage_contexts \<and>
           fst (CreateChart env cfg opts s) = (None, None, Some (Errorf ctx cause)))"
  proof (cases "ioutil_TempDir env '''' ''osdk-helm-chart'' (outside s)")
    case (Pair res w)
    show ?thesis
    proof (cases res)
      case (Inl e)
      with Pair show ?thesis by (simp add: CreateChart_TempDir_fails)
    next
      case (Inr tmp)
      with Pair CreateChart_body_result
        [of env cfg opts tmp "called (Call_TempDir '''' ''osdk-helm-chart'') w s"]
      show ?thesis by (simp add: CreateChart_TempDir_succeeds)
    qed
  qed
  have nodir: "fst (CreateChart env cfg opts s) = (None, None, Some err)"
    if "ioutil_TempDir env '''' ''osdk-helm-chart'' (outside s) = (Inl err, w1)"
    using that by (simp add: CreateChart_TempDir_fails)
  let ?p = "filepath_Join env tmpDir (Name c)"
  let ?acq = "if opts_Chart opts = ''''
        then scaffoldChart env cfg tmpDir opts (called (Call_TempDir '''' ''osdk-helm-chart'') w1 s)
        else fetchChart env cfg tmpDir opts (called (Call_TempDir '''' ''osdk-helm-chart'') w1 s)"
  have stage1: "fst (CreateChart env cfg opts s) =
         (None, None,
          Some (Errorf (if opts_Chart opts = '''' then ''failed to scaffold default chart: ''
                        else ''failed to fetch chart: '') cause))"
    if "ioutil_TempDir env '''' ''osdk-helm-chart'' (outside s) = (Inr tmpDir, w1)"
       "?acq = (Inl cause, s2)"
    using CreateChart_not_acquired [OF that] .
  have deps: "fst (CreateChart env cfg opts s) =
          (None, None, Some (Errorf ''failed to fetch chart dependencies: '' cause))"
    if "ioutil_TempDir env '''' ''osdk-helm-chart'' (outside s) = (Inr tmpDir, w1)"
       "?acq = (Inr (r, c), s2)"
       "downloader_Build env ?p (outside s2) = ((Some cause, out), w3)"
    using CreateChart_acquired [OF that(1,2)] CreateChart_resolve_run [OF that(3), of r] by simp
  have reload: "fst (CreateChart env cfg opts s) =
          (None, None, Some (Errorf ''failed to load chart: '' cause))"
    if "ioutil_TempDir env '''' ''osdk-helm-chart'' (outside s) = (Inr tmpDir, w1)"
       "?acq = (Inr (r, c), s2)"
       "downloader_Build env ?p (outside s2) = ((None, out), w3)"
       "loader_Load env ?p w3 = Inl cause"
    using CreateChart_acquired [OF that(1,2)] CreateChart_resolve_run [OF that(3), of r] that(4)
    by simp
  have ok: "fst (CreateChart env cfg opts s) = (Some r, Some c', None)"
    if "ioutil_TempDir env '''' ''osdk-helm-chart'' (outside s) = (Inr tmpDir, w1)"
       "?acq = (Inr (r, c), s2)"
       "downloader_Build env ?p (outside s2) = ((None, out), w3)"
       "loader_Load env ?p w3 = Inr c'"
    using CreateChart_acquired [OF that(1,2)] CreateChart_resolve_run [OF that(3), of r] that(4)
    by simp
  from shape nodir stage1 deps reload ok show ?thesis by blast
qed

theorem CreateChart_all_or_nothing_witness:
  "ioutil_TempDir sim '''' ''osdk-helm-chart'' (outside (start disk0)) =
     (Inr ''/tmp/osdk-helm-chart042'', disk0\<lparr>dirs := [''/tmp/osdk-helm-chart042'', ''/tmp'']\<rparr>) \<and>
   fst (fetchChart sim config0 ''/tmp/osdk-helm-chart042'' (options0\<lparr>opts_Chart := ''stable/missing''\<rparr>)
          (called (Call_TempDir '''' ''osdk-helm-chart'')
             (disk0\<lparr>dirs := [''/tmp/osdk-helm-chart042'', ''/tmp'']\<rparr>) (start disk0))) =
     Inl (Error ''chart stable/missing not found'') \<and>
   fst (CreateChart sim config0 (options0\<lparr>opts_Chart := ''stable/missing''\<rparr>) (start disk0)) =
     (None, None, Some (Error ''failed to fetch chart: chart stable/missing not found'')) \<and>
   fst (fetchChart sim config0 ''/tmp/osdk-helm-chart042'' (options0\<lparr>opts_Chart := ''./shop''\<rparr>)
          (called (Call_TempDir '''' ''osdk-helm-chart'')
             (disk0\<lparr>dirs := [''/tmp/osdk-helm-chart042'', ''/tmp'']\<rparr>) (start disk0))) =
     Inr (\<lparr>r_Group = ''charts'', r_Domain = ''example.com'', r_Version = ''v1alpha1'',
           r_Kind = ''Shop'', r_Plural = ''shops'', r_Path = ''''\<rparr>, shop) \<and>
   fst (downloader_Build sim (filepath_Join sim ''/tmp/osdk-helm-chart042'' (Name shop))
          (outside (snd (fetchChart sim config0 ''/tmp/osdk-helm-chart042''
             (options0\<lparr>opts_Chart := ''./shop''\<rparr>)
             (called (Call_TempDir '''' ''osdk-helm-chart'')
                (disk0\<lparr>dirs := [''/tmp/osdk-helm-chart042'', ''/tmp'']\<rparr>) (start disk0)))))) =
     (Some (Error ''no repository definition for stable/mysql''),
      ''Getting updates for unmanaged Helm repositories...'') \<and>
   fst (CreateChart sim config0 (options0\<lparr>opts_Chart := ''./shop''\<rparr>) (start disk0)) =
     (None, None,
      Some (Error ''failed to fetch chart dependencies: no repository definition for stable/mysql''))"
proof -
  let ?tmp = "''/tmp/osdk-helm-chart042''"
  let ?w1 = "disk0\<lparr>dirs := [''/tmp/osdk-helm-chart042'', ''/tmp'']\<rparr>"
  let ?s1 = "called (Call_TempDir '''' ''osdk-helm-chart'') ?w1 (start disk0)"
  let ?missing = "options0\<lparr>opts_Chart := ''stable/missing''\<rparr>"
  let ?shop = "options0\<lparr>opts_Chart := ''./shop''\<rparr>"
  let ?r = "\<lparr>r_Group = ''charts'', r_Domain = ''example.com'', r_Version = ''v1alpha1'',
           r_Kind = ''Shop'', r_Plural = ''shops'', r_Path = ''''\<rparr>"
  have ne: "opts_Chart ?missing \<noteq> ''''" "opts_Chart ?shop \<noteq> ''''"
    by (simp_all add: options0_def)
  have f1: "fst (fetchChart sim config0 ?tmp ?missing ?s1) = Inl (Error ''chart stable/missing not found'')"
    by (simp add: run_defs)
  then have acq1: "(if opts_Chart ?missing = '''' then scaffoldChart sim config0 ?tmp ?missing ?s1
                    else fetchChart sim config0 ?tmp ?missing ?s1) =
      (Inl (Error ''chart stable/missing not found''), snd (fetchChart sim config0 ?tmp ?missing ?s1))"
    using ne(1) by (simp add: prod_eq_iff)
  from CreateChart_all_or_nothing [where env = sim and cfg = config0 and opts = ?missing
      and s = "start disk0" and tmpDir = ?tmp and ?w1.0 = ?w1
      and cause = "Error ''chart stable/missing not found''"
      and ?s2.0 = "snd (fetchChart sim config0 ?tmp ?missing ?s1)"]
    sim_TempDir_disk0 acq1 ne(1)
  have r1: "fst (CreateChart sim config0 ?missing (start disk0)) =
      (None, None, Some (Errorf ''failed to fetch chart: '' (Error ''chart stable/missing not found'')))"
    by simp
  have f2: "fst (fetchChart sim config0 ?tmp ?shop ?s1) = Inr (?r, shop)"
    by (simp add: run_defs)
  then have acq2: "(if opts_Chart ?shop = '''' then scaffoldChart sim config0 ?tmp ?shop ?s1
                    else fetchChart sim config0 ?tmp ?shop ?s1) =
      (Inr (?r, shop), snd (fetchChart sim config0 ?tmp ?shop ?s1))"
    using ne(2) by (simp add: prod_eq_iff)
  let ?s2 = "snd (fetchChart sim config0 ?tmp ?shop ?s1)"
  have b2: "fst (downloader_Build sim (filepath_Join sim ?tmp (Name shop)) (outside ?s2)) =
      (Some (Error ''no repository definition for stable/mysql''),
       ''Getting updates for unmanaged Helm repositories...'')"
    by (simp add: run_defs)
  then have b2': "downloader_Build sim (filepath_Join sim ?tmp (Name shop)) (outside ?s2) =
      ((Some (Error ''no repository definition for stable/mysql''),
        ''Getting updates for unmanaged Helm repositories...''),
       snd (downloader_Build sim (filepath_Join sim ?tmp (Name shop)) (outside ?s2)))"
    by (simp add: prod_eq_iff)
  from CreateChart_all_or_nothing [where env = sim and cfg = config0 and opts = ?shop
      and s = "start disk0" and tmpDir = ?tmp and ?w1.0 = ?w1 and r = ?r and c = shop
      and ?s2.0 = ?s2 and cause = "Error ''no repository definition for stable/mysql''"
      and out = "''Getting updates for unmanaged Helm repositories...''"
      and ?w3.0 = "snd (downloader_Build sim (filepath_Join sim ?tmp (Name shop)) (outside ?s2))"]
    sim_TempDir_disk0 acq2 b2'
  have r2: "fst (CreateChart sim config0 ?shop (start disk0)) =
      (None, None, Some (Errorf ''failed to fetch chart dependencies: ''
         (Error ''no repository definition for stable/mysql'')))"
    by blast
  from sim_TempDir_disk0 f1 r1 f2 b2 r2 show ?thesis
    by (simp add: Errorf_def)
qed

text \<open>
  The claim as it was stated fails when the temporary directory cannot be created:
  the error of \<open>ioutil.TempDir\<close> is returned without any of the four contexts.
\<close>

theorem CreateChart_all_or_nothing_counterexample:
  "fst (CreateChart sim config0 (options0\<lparr>opts_Chart := ''./local-chart''\<rparr>)
          (start (disk0\<lparr>tmp_full := True\<rparr>))) =
     (None, None, Some (Error ''mkdir: no space left on device'')) \<and>
   \<not> has_stage_context (Error ''mkdir: no space left on device'')"
  by (simp add: run_defs has_stage_context_def stage_contexts_def)

subsection \<open>The temporary directory is removed\<close>

lemma createChartFromDisk_logged:
  "createChartFromDisk env destDir source s = (res, s') \<Longrightarrow> logged s' = logged s"
  by (auto simp: createChartFromDisk_def do_defs split: prod.splits sum.splits option.splits)

lemma createChartFromRemote_logged:
  "createChartFromRemote env destDir opts s = (res, s') \<Longrightarrow> logged s' = logged s"
  by (auto simp: createChartFromRemote_def createChartFromRemote_download_def do_defs
           split: prod.splits sum.splits if_splits dest!: createChartFromDisk_logged)

lemma scaffoldChart_logged:
  "scaffoldChart env cfg destDir opts s = (res, s') \<Longrightarrow> logged s' = logged s"
  by (auto simp: scaffoldChart_def do_defs split: prod.splits sum.splits)

lemma fetchChart_logged:
  "fetchChart env cfg destDir opts s = (res, s') \<Longrightarrow> logged s' = logged s"
  by (auto simp: fetchChart_def do_defs Let_def split: prod.splits sum.splits if_splits
           dest!: createChartFromDisk_logged createChartFromRemote_logged)

lemma CreateChart_resolve_logged:
  "CreateChart_resolve env tmpDir r c s = (res, s') \<Longrightarrow> logged s' = logged s"
  by (auto simp: CreateChart_resolve_def fetchChartDependencies_def do_defs Let_def
           split: prod.splits sum.splits option.splits)

lemma CreateChart_body_logged:
  "CreateChart_body env cfg opts tmpDir s = (res, s') \<Longrightarrow> logged s' = logged s"
  by (auto simp: CreateChart_body_def split: prod.splits sum.splits if_splits
           dest!: scaffoldChart_logged fetchChart_logged CreateChart_resolve_logged)

lemma do_other_RemoveAll [simp]:
  "do_TempDir (env\<lparr>os_RemoveAll := rm\<rparr>) = do_TempDir env"
  "do_Stat (env\<lparr>os_RemoveAll := rm\<rparr>) = do_Stat env"
  "do_Load (env\<lparr>os_RemoveAll := rm\<rparr>) = do_Load env"
  "do_Create (env\<lparr>os_RemoveAll := rm\<rparr>) = do_Create env"
  "do_SaveDir (env\<lparr>os_RemoveAll := rm\<rparr>) = do_SaveDir env"
  "do_FindChartInRepoURL (env\<lparr>os_RemoveAll := rm\<rparr>) = do_FindChartInRepoURL env"
  "do_DownloadTo (env\<lparr>os_RemoveAll := rm\<rparr>) = do_DownloadTo env"
  "do_Build (env\<lparr>os_RemoveAll := rm\<rparr>) = do_Build env"
  by (simp_all add: do_defs fun_eq_iff)

lemma NewResource_other_RemoveAll [simp]:
  "NewResource (env\<lparr>os_RemoveAll := rm\<rparr>) = NewResource env"
  by (simp add: NewResource_def fun_eq_iff)

lemma createChartFromDisk_other_RemoveAll [simp]:
  "createChartFromDisk (env\<lparr>os_RemoveAll := rm\<rparr>) = createChartFromDisk env"
  by (simp add: createChartFromDisk_def fun_eq_iff
        cong: prod.case_cong sum.case_cong option.case_cong if_cong)

lemma createChartFromRemote_other_RemoveAll [simp]:
  "createChartFromRemote (env\<lparr>os_RemoveAll := rm\<rparr>) = createChartFromRemote env"
  by (simp add: createChartFromRemote_def createChartFromRemote_download_def fun_eq_iff
        cong: prod.case_cong sum.case_cong option.case_cong if_cong)

lemma scaffoldChart_other_RemoveAll [simp]:
  "scaffoldChart (env\<lparr>os_RemoveAll := rm\<rparr>) = scaffoldChart env"
  by (simp add: scaffoldChart_def fun_eq_iff
        cong: prod.case_cong sum.case_cong option.case_cong if_cong)

lemma fetchChart_other_RemoveAll [simp]:
  "fetchChart (env\<lparr>os_RemoveAll := rm\<rparr>) = fetchChart env"
  by (simp add: fetchChart_def fun_eq_iff
        cong: prod.case_cong sum.case_cong option.case_cong if_cong)

lemma CreateChart_body_other_RemoveAll [simp]:
  "CreateChart_body (env\<lparr>os_RemoveAll := rm\<rparr>) = CreateChart_body env"
  by (simp add: CreateChart_body_def CreateChart_resolve_def fetchChartDependencies_def fun_eq_iff
        cong: prod.case_cong sum.case_cong option.case_cong if_cong)

text \<open>
  Claim C1, amended.  Take an invocation of \<open>CreateChart\<close> whose temporary directory
  \<open>tmpDir\<close> was created, let the body end with the results \<open>res\<close> in the state \<open>s2\<close>,
  and let \<open>os.RemoveAll\<close> answer \<open>rmErr\<close> there.  Then, whether the body succeeded or
  any stage failed: \<open>CreateChart\<close> returns \<open>res\<close>; the removal of \<open>tmpDir\<close> is its last
  call; when the removal reports no error, \<open>tmpDir\<close> does not exist when \<open>CreateChart\<close>
  returns; when it reports an error, the only trace is one line in the log.  The
  returned values do not depend on what \<open>os.RemoveAll\<close> does at all.
\<close>

theorem CreateChart_cleanup:
  assumes tmp: "ioutil_TempDir env '''' ''osdk-helm-chart'' (outside s) = (Inr tmpDir, w1)"
    and body: "CreateChart_body env cfg opts tmpDir
                 (called (Call_TempDir '''' ''osdk-helm-chart'') w1 s) = (res, s2)"
    and rm: "os_RemoveAll env tmpDir (outside s2) = (rmErr, w3)"
  shows "fst (CreateChart env cfg opts s) = res \<and>
         calls (snd (CreateChart env cfg opts s)) = calls s2 @ [Call_RemoveAll tmpDir] \<and>
         outside (snd (CreateChart env cfg opts s)) = w3 \<and>
         logged (snd (CreateChart env cfg opts s)) =
           logged s @ (case rmErr of None \<Rightarrow> []
                       | Some err \<Rightarrow> [''Failed to remove temporary chart directory '' @ tmpDir
                                       @ '': '' @ Error_msg err]) \<and>
         (rmErr = None \<and> RemoveAll_removes env \<longrightarrow>
            os_Stat env tmpDir (outside (snd (CreateChart env cfg opts s))) \<noteq> None) \<and>
         fst (CreateChart (env\<lparr>os_RemoveAll := rm'\<rparr>) cfg opts s) = res"
proof -
  let ?s1 = "called (Call_TempDir '''' ''osdk-helm-chart'') w1 s"
  have run: "CreateChart env cfg opts s = (res, CreateChart_deferred env tmpDir s2)"
    using body by (simp add: CreateChart_TempDir_succeeds [OF tmp])
  have l2: "logged s2 = logged s"
    using CreateChart_body_logged [OF body] by simp
  have out: "outside (CreateChart_deferred env tmpDir s2) = w3"
    using rm by (cases rmErr) (simp_all add: CreateChart_deferred_def do_RemoveAll_def)
  have log: "logged (CreateChart_deferred env tmpDir s2) =
      logged s @ (case rmErr of None \<Rightarrow> []
                       | Some err \<Rightarrow> [''Failed to remove temporary chart directory '' @ tmpDir
                                       @ '': '' @ Error_msg err])"
    using rm l2 by (cases rmErr) (simp_all add: CreateChart_deferred_def do_RemoveAll_def)
  have gone: "os_Stat env tmpDir w3 \<noteq> None" if "rmErr = None" "RemoveAll_removes env"
    using that rm unfolding RemoveAll_removes_def by blast
  have tmp': "ioutil_TempDir (env\<lparr>os_RemoveAll := rm'\<rparr>) '''' ''osdk-helm-chart'' (outside s) =
      (Inr tmpDir, w1)"
    using tmp by simp
  have other: "fst (CreateChart (env\<lparr>os_RemoveAll := rm'\<rparr>) cfg opts s) = res"
    using body by (simp add: CreateChart_TempDir_succeeds [OF tmp'])
  show ?thesis
    using run out log gone other by simp
qed

theorem CreateChart_cleanup_witness:
  "ioutil_TempDir sim '''' ''osdk-helm-chart'' (outside (start disk0)) =
     (Inr ''/tmp/osdk-helm-chart042'', disk0\<lparr>dirs := [''/tmp/osdk-helm-chart042'', ''/tmp'']\<rparr>) \<and>
   RemoveAll_removes sim \<and>
   fst (os_RemoveAll sim ''/tmp/osdk-helm-chart042''
     (outside (snd (CreateChart_body sim config0 (options0\<lparr>opts_Chart := ''./shop''\<rparr>)
        ''/tmp/osdk-helm-chart042''
        (called (Call_TempDir '''' ''osdk-helm-chart'')
           (disk0\<lparr>dirs := [''/tmp/osdk-helm-chart042'', ''/tmp'']\<rparr>) (start disk0)))))) = None \<and>
   os_Stat sim ''/tmp/osdk-helm-chart042''
     (outside (snd (CreateChart sim config0 (options0\<lparr>opts_Chart := ''./shop''\<rparr>) (start disk0)))) \<noteq> None \<and>
   logged (snd (CreateChart sim config0 (options0\<lparr>opts_Chart := ''./shop''\<rparr>) (start disk0))) = []"
proof -
  let ?w1 = "disk0\<lparr>dirs := [''/tmp/osdk-helm-chart042'', ''/tmp'']\<rparr>"
  let ?opts = "options0\<lparr>opts_Chart := ''./shop''\<rparr>"
  let ?body = "CreateChart_body sim config0 ?opts ''/tmp/osdk-helm-chart042''
        (called (Call_TempDir '''' ''osdk-helm-chart'') ?w1 (start disk0))"
  have rm: "fst (os_RemoveAll sim ''/tmp/osdk-helm-chart042'' (outside (snd ?body))) = None"
    by (simp add: run_defs)
  have "?body = (fst ?body, snd ?body)" by simp
  note run = CreateChart_cleanup [OF sim_TempDir_disk0 this surjective_pairing,
      where rm' = sim_RemoveAll]
  from run rm sim_RemoveAll_removes
  have gone: "os_Stat sim ''/tmp/osdk-helm-chart042''
     (outside (snd (CreateChart sim config0 ?opts (start disk0)))) \<noteq> None"
    by blast
  from run rm have "logged (snd (CreateChart sim config0 ?opts (start disk0))) = logged (start disk0)"
    by simp
  then have log: "logged (snd (CreateChart sim config0 ?opts (start disk0))) = []"
    by (simp add: start_def)
  from sim_TempDir_disk0 sim_RemoveAll_removes rm gone log show ?thesis
    by blast
qed

text \<open>
  The claim as it was stated fails when the removal itself fails: on a disk where the
  temporary directory cannot be removed, \<open>CreateChart\<close> returns while the directory
  still exists, and the failure is in the log.
\<close>

theorem CreateChart_cleanup_counterexample:
  "fst (ioutil_TempDir sim '''' ''osdk-helm-chart''
          (outside (start (disk0\<lparr>busy := [''/tmp/osdk-helm-chart042'']\<rparr>)))) =
     Inr ''/tmp/osdk-helm-chart042'' \<and>
   os_Stat sim ''/tmp/osdk-helm-chart042''
     (outside (snd (CreateChart sim config0 (options0\<lparr>opts_Chart := ''./local-chart''\<rparr>)
        (start (disk0\<lparr>busy := [''/tmp/osdk-helm-chart042'']\<rparr>))))) = None \<and>
   logged (snd (CreateChart sim config0 (options0\<lparr>opts_Chart := ''./local-chart''\<rparr>)
        (start (disk0\<lparr>busy := [''/tmp/osdk-helm-chart042'']\<rparr>)))) =
     [''Failed to remove temporary chart directory /tmp/osdk-helm-chart042: unlinkat /tmp/osdk-helm-chart042: device or resource busy'']"
  by (simp add: run_defs)

section \<open>Properties of the watch options\<close>

text \<open>
  Claim C10.  \<open>NewWatchOp\<close> returns a \<open>WatchOp\<close> whose \<open>NumWorkers\<close> is 1.  \<open>setDefaults\<close>
  replaces \<open>NumWorkers\<close> exactly when it is 0: every other value, negative ones included,
  is kept as it is, so a nonzero count set through \<open>WithWatchOptions\<close> survives
  \<open>setDefaults\<close> unchanged, and applying the option to a fresh \<open>WatchOp\<close> stores the
  count without any validation.
\<close>

theorem NewWatchOp_NumWorkers:
  "NumWorkers NewWatchOp = 1
   \<and> setDefaults op = (if NumWorkers op = 0 then op\<lparr>NumWorkers := 1\<rparr> else op)
   \<and> (n \<noteq> 0 \<longrightarrow> setDefaults (WithWatchOptions n op) = op\<lparr>NumWorkers := n\<rparr>)
   \<and> NumWorkers (applyOpts NewWatchOp [WithWatchOptions n]) = n"
  by (simp add: NewWatchOp_def setDefaults_def WithWatchOptions_def)

theorem NewWatchOp_NumWorkers_witness:
  "(- 3 :: int) \<noteq> 0
   \<and> setDefaults (WithWatchOptions (- 3) \<lparr>NumWorkers = 0\<rparr>) = \<lparr>NumWorkers = - 3\<rparr>
   \<and> NumWorkers (applyOpts NewWatchOp [WithWatchOptions (- 3)]) = - 3"
  using NewWatchOp_NumWorkers [of "\<lparr>NumWorkers = 0\<rparr>" "- 3"] by simp

end
